theory Spec2Isabelle
  imports Complex_Main
begin

section \<open>Values: Python numbers and sympy expressions\<close>

text \<open>
  The evolution time and the coefficients of a Hamiltonian are Python numbers
  (\<^verbatim>\<open>int\<close>, \<^verbatim>\<open>float\<close>, \<^verbatim>\<open>complex\<close>) or sympy expressions. Numbers are
  idealised as complex numbers (rounding of floats is not modelled); an expression
  that contains a symbol stays an expression tree, which records the operations that
  were applied to it (sympy's automatic rewriting of the tree is not modelled).
\<close>

datatype expr =
    Number complex
  | Symbol string
  | Add expr expr
  | Mul expr expr
  | Div expr expr

datatype error =
    ValueError string
  | TypeError
  | ZeroDivisionError
  | IndexError
  | NotImplementedError

text \<open>\<^verbatim>\<open>a + b\<close> and \<^verbatim>\<open>a * b\<close>: arithmetic on two numbers, a larger expression otherwise.\<close>

fun py_add :: "expr \<Rightarrow> expr \<Rightarrow> expr" where
  "py_add (Number a) (Number b) = Number (a + b)"
| "py_add a b = Add a b"

fun py_mul :: "expr \<Rightarrow> expr \<Rightarrow> expr" where
  "py_mul (Number a) (Number b) = Number (a * b)"
| "py_mul a b = Mul a b"

text \<open>
  \<^verbatim>\<open>a / b\<close>: true division. Dividing a number by the number zero raises
  \<^verbatim>\<open>ZeroDivisionError\<close>; a quotient that involves a sympy expression never raises.
  \<open>truediv\<close> is the value of the quotient when nothing is raised.
\<close>

fun truediv :: "expr \<Rightarrow> expr \<Rightarrow> expr" where
  "truediv (Number a) (Number b) = Number (a / b)"
| "truediv a b = Div a b"

fun py_div :: "expr \<Rightarrow> expr \<Rightarrow> error + expr" where
  "py_div (Number a) (Number b) =
     (if b = 0 then Inl ZeroDivisionError else Inr (Number (a / b)))"
| "py_div a b = Inr (Div a b)"

text \<open>\<^verbatim>\<open>np.pi\<close> and an \<^verbatim>\<open>int\<close> used as a number.\<close>

definition np_pi :: expr where
  "np_pi = Number (complex_of_real pi)"

definition of_py_int :: "int \<Rightarrow> expr" where
  "of_py_int n = Number (of_int n)"

text \<open>Sequencing of computations that may raise: the first exception ends the call.\<close>

fun and_then :: "error + 'a \<Rightarrow> ('a \<Rightarrow> error + 'b) \<Rightarrow> error + 'b" where
  "and_then (Inl e) f = Inl e"
| "and_then (Inr v) f = f v"

text \<open>A \<^verbatim>\<open>for\<close> loop over a list whose body updates the loop state and may raise.\<close>

fun for_loop :: "('s \<Rightarrow> 'a \<Rightarrow> error + 's) \<Rightarrow> 's \<Rightarrow> 'a list \<Rightarrow> error + 's" where
  "for_loop body s [] = Inr s"
| "for_loop body s (x # xs) = and_then (body s x) (\<lambda>s'. for_loop body s' xs)"

text \<open>\<^verbatim>\<open>range(n)\<close>: the integers \<open>0, ..., n - 1\<close>, none when \<open>n \<le> 0\<close>.\<close>

definition py_range :: "int \<Rightarrow> int list" where
  "py_range n = map int [0..<nat n]"

text \<open>\<^verbatim>\<open>str(i)\<close> for an \<^verbatim>\<open>int\<close>, as f-strings format it.\<close>

fun str_nat :: "nat \<Rightarrow> string" where
  "str_nat n =
     (if n < 10 then [''0123456789'' ! n]
      else str_nat (n div 10) @ [''0123456789'' ! (n mod 10)])"

definition str_int :: "int \<Rightarrow> string" where
  "str_int i = (if i < 0 then CHR ''-'' # str_nat (nat (- i)) else str_nat (nat i))"

section \<open>Operators and circuits\<close>

text \<open>
  openfermion's \<^verbatim>\<open>QubitOperator\<close>: its \<^verbatim>\<open>terms\<close> dictionary maps a Pauli string, a
  tuple of (qubit index, axis) factors, to a coefficient. The dictionary is kept as an
  association list in iteration order (its keys are distinct).
\<close>

datatype axis = X | Y | Z

type_synonym pauli_string = "(nat \<times> axis) list"

record qubit_operator =
  terms :: "(pauli_string \<times> expr) list"

text \<open>
  \<^verbatim>\<open>get_operators()\<close> of openfermion yields, for every entry of \<^verbatim>\<open>terms\<close> in
  iteration order, an operator of the same class that holds this entry alone.
\<close>

definition get_operators :: "qubit_operator \<Rightarrow> qubit_operator list" where
  "get_operators hamiltonian =
     map (\<lambda>(term, coefficient). \<lparr>terms = [(term, coefficient)]\<rparr>) (terms hamiltonian)"

text \<open>The gates \<^verbatim>\<open>H\<close>, \<^verbatim>\<open>RX(angle)\<close>, \<^verbatim>\<open>RZ(angle)\<close> and \<^verbatim>\<open>CNOT\<close> bound to qubits.\<close>

datatype operation =
    H nat
  | RX expr nat
  | RZ expr nat
  | CNOT nat nat

text \<open>
  Modelled from the spec: the class \<^verbatim>\<open>Circuit\<close> of \<^verbatim>\<open>zquantum.core.circuits\<close>. A
  circuit is an ordered sequence of operations; \<^verbatim>\<open>Circuit()\<close> is the empty circuit,
  \<^verbatim>\<open>circuit + other\<close> concatenates two circuits in order and \<^verbatim>\<open>circuit + gate\<close>
  appends one operation.
\<close>

datatype circuit = Circuit (operations: "operation list")

definition circuit_add :: "circuit \<Rightarrow> circuit \<Rightarrow> circuit" where
  "circuit_add circuit other = Circuit (operations circuit @ operations other)"

definition circuit_add_gate :: "circuit \<Rightarrow> operation \<Rightarrow> circuit" where
  "circuit_add_gate circuit gate = Circuit (operations circuit @ [gate])"

section \<open>time_evolution_for_term\<close>

text \<open>The lists that the loop of \<^verbatim>\<open>time_evolution_for_term\<close> fills.\<close>

record gate_lists =
  base_changes :: "operation list"
  base_reversals :: "operation list"
  cnot_gates :: "operation list"
  central_gate :: "operation option"

text \<open>One pass of the loop over \<^verbatim>\<open>enumerate(zip(term_types, qubit_indices))\<close>.\<close>

definition term_loop_body ::
  "pauli_string \<Rightarrow> nat list \<Rightarrow> expr \<Rightarrow> expr \<Rightarrow> gate_lists \<Rightarrow> nat \<times> axis \<times> nat \<Rightarrow> gate_lists"
where
  "term_loop_body term_components qubit_indices time coefficient gates entry =
     (case entry of (i, term_type, qubit_id) \<Rightarrow>
        let gates1 =
          (case term_type of
             X \<Rightarrow> gates\<lparr>base_changes := base_changes gates @ [H qubit_id],
                        base_reversals := base_reversals gates @ [H qubit_id]\<rparr>
           | Y \<Rightarrow> gates\<lparr>base_changes :=
                          base_changes gates @ [RX (truediv np_pi (Number 2)) qubit_id],
                        base_reversals :=
                          base_reversals gates
                            @ [RX (truediv (py_mul (Number (- 1)) np_pi) (Number 2)) qubit_id]\<rparr>
           | Z \<Rightarrow> gates)
        in
          if i = length term_components - 1
          then gates1\<lparr>central_gate :=
                 Some (RZ (py_mul (py_mul (Number 2) time) coefficient) qubit_id)\<rparr>
          else gates1\<lparr>cnot_gates :=
                 cnot_gates gates1 @ [CNOT qubit_id (qubit_indices ! (i + 1))]\<rparr>)"

definition time_evolution_for_term :: "qubit_operator \<Rightarrow> expr \<Rightarrow> error + circuit" where
  "time_evolution_for_term term time =
     (if length (terms term) \<noteq> 1
      then Inl (ValueError ''This function works only on a single term.'')
      else
        let term_components = fst (hd (terms term));
            term_types = map snd term_components;
            qubit_indices = map fst term_components;
            coefficient = snd (hd (terms term));
            circuit = Circuit []
        in
          if term_components = [] then Inr circuit
          else
            let gates =
                  foldl (term_loop_body term_components qubit_indices time coefficient)
                    \<lparr>base_changes = [], base_reversals = [], cnot_gates = [],
                     central_gate = None\<rparr>
                    (enumerate 0 (zip term_types qubit_indices));
                circuit = foldl circuit_add_gate circuit (base_changes gates);
                circuit = foldl circuit_add_gate circuit (cnot_gates gates)
            in
              (case central_gate gates of
                 None \<Rightarrow> Inl NotImplementedError
               | Some gate \<Rightarrow>
                   let circuit = circuit_add_gate circuit gate;
                       circuit = foldl circuit_add_gate circuit (rev (cnot_gates gates));
                       circuit = foldl circuit_add_gate circuit (base_reversals gates)
                   in Inr circuit))"

section \<open>time_evolution\<close>

text \<open>
  \<^verbatim>\<open>reduce(operator.add, items)\<close> without an initial value: the items of the
  generator are produced one by one, each may raise, and an empty generator makes
  \<^verbatim>\<open>reduce\<close> raise \<^verbatim>\<open>TypeError\<close>.
\<close>

fun reduce_add :: "(error + circuit) list \<Rightarrow> error + circuit" where
  "reduce_add [] = Inl TypeError"
| "reduce_add (item # items) =
     and_then item
       (\<lambda>first. for_loop (\<lambda>acc next. and_then next (\<lambda>c. Inr (circuit_add acc c))) first items)"

definition time_evolution :: "qubit_operator \<Rightarrow> expr \<Rightarrow> string \<Rightarrow> int \<Rightarrow> error + circuit" where
  "time_evolution hamiltonian time method trotter_order =
     (if method \<noteq> ''Trotter''
      then Inl (ValueError (''Currently the method '' @ method @ '' is not supported.''))
      else
        let terms' = get_operators hamiltonian
        in reduce_add
             (concat (map (\<lambda>index_order.
                map (\<lambda>term.
                  and_then (py_div time (of_py_int trotter_order))
                    (time_evolution_for_term term)) terms')
                (py_range trotter_order))))"

section \<open>time_evolution_derivatives\<close>

text \<open>
  The body of the loop over the two shift signs, for the term \<open>term_1\<close> at index \<open>i\<close>.
  Every operator that \<open>get_operators\<close> yields is a \<^verbatim>\<open>QubitOperator\<close>, so
  \<^verbatim>\<open>isinstance(term_1, QubitOperator)\<close> holds and \<open>r\<close> is the first value of
  \<^verbatim>\<open>term_1.terms\<close> divided by \<open>trotter_order\<close>. This division raises no
  \<^verbatim>\<open>TypeError\<close>, whatever the coefficient is, so the \<^verbatim>\<open>except TypeError\<close> clause
  that would raise the \<^verbatim>\<open>ValueError\<close> about numerical coefficients is never entered;
  the branch \<^verbatim>\<open>complex(term_1.coefficient).real\<close> belongs to operators of another
  class.
\<close>

definition derivative_loop_body ::
  "qubit_operator list \<Rightarrow> expr \<Rightarrow> int \<Rightarrow> nat \<Rightarrow> qubit_operator \<Rightarrow>
   circuit list \<times> expr list \<Rightarrow> expr \<Rightarrow> error + circuit list \<times> expr list"
where
  "derivative_loop_body terms' time trotter_order i term_1 state factor =
     (case state of (single_trotter_derivatives, output_factors) \<Rightarrow>
        let output = Circuit [] in
        and_then
          (case qubit_operator.terms term_1 of
             [] \<Rightarrow> Inl IndexError
           | entry # _ \<Rightarrow> py_div (snd entry) (of_py_int trotter_order))
          (\<lambda>r.
             let output_factors = output_factors @ [py_mul r factor] in
             and_then (py_div np_pi (py_mul (Number 4) r))
               (\<lambda>quotient.
                  let shift = py_mul factor quotient in
                  and_then
                    (for_loop
                       (\<lambda>output (j, term_2).
                          and_then
                            (if i = j
                             then py_div (py_add time shift) (of_py_int trotter_order)
                             else py_div time (of_py_int trotter_order))
                            (\<lambda>angle.
                               and_then (time_evolution_for_term term_2 angle)
                                 (\<lambda>c. Inr (circuit_add output c))))
                       output (enumerate 0 terms'))
                    (\<lambda>output.
                       Inr (single_trotter_derivatives @ [output], output_factors)))))"

text \<open>
  The loops over the terms and over \<^verbatim>\<open>factors = [1.0, -1.0]\<close>: the result is the pair
  of \<^verbatim>\<open>single_trotter_derivatives\<close> and \<^verbatim>\<open>output_factors\<close>.
\<close>

definition single_trotter_derivatives ::
  "qubit_operator list \<Rightarrow> expr \<Rightarrow> int \<Rightarrow> error + circuit list \<times> expr list"
where
  "single_trotter_derivatives terms' time trotter_order =
     (let factors = [Number 1, Number (- 1)] in
      for_loop
        (\<lambda>state (i, term_1).
           for_loop (derivative_loop_body terms' time trotter_order i term_1) state factors)
        ([], []) (enumerate 0 terms'))"

definition generate_circuit_sequence ::
  "circuit \<Rightarrow> circuit \<Rightarrow> int \<Rightarrow> int \<Rightarrow> error + circuit"
where
  "generate_circuit_sequence repeated_circuit different_circuit len position =
     (if position \<ge> len
      then Inl (ValueError
                  (''Position '' @ str_int position @ '' should be < '' @ str_int len))
      else Inr (Circuit (concat (map
                  (\<lambda>i. operations
                         (if i \<noteq> position then repeated_circuit else different_circuit))
                  (py_range len)))))"

definition time_evolution_derivatives ::
  "qubit_operator \<Rightarrow> expr \<Rightarrow> string \<Rightarrow> int \<Rightarrow> error + circuit list \<times> expr list"
where
  "time_evolution_derivatives hamiltonian time method trotter_order =
     (if method \<noteq> ''Trotter''
      then Inl (ValueError (''The method '' @ method @ '' is currently not supported.''))
      else
        let terms' = get_operators hamiltonian in
        and_then (single_trotter_derivatives terms' time trotter_order)
          (\<lambda>(single_trotter_derivatives, output_factors).
             if trotter_order > 1
             then
               and_then (time_evolution hamiltonian time ''Trotter'' 1)
                 (\<lambda>repeated_circuit.
                    for_loop
                      (\<lambda>state position.
                         for_loop
                           (\<lambda>(output_circuits, final_factors) (factor, different_circuit).
                              and_then
                                (generate_circuit_sequence repeated_circuit
                                   different_circuit trotter_order position)
                                (\<lambda>c. Inr (output_circuits @ [c],
                                           final_factors @ [factor])))
                           state (zip output_factors single_trotter_derivatives))
                      ([], []) (py_range trotter_order))
             else Inr (single_trotter_derivatives, output_factors)))"

section \<open>The gates of one factor of a Pauli term\<close>

text \<open>
  The basis change that precedes the rotation and the reversal that follows it, for one
  (qubit, axis) factor: \<open>H\<close> for \<open>X\<close>, \<open>RX\<close> by \<open>\<pi>/2\<close> and back for \<open>Y\<close>, nothing
  for \<open>Z\<close>. These are the contributions of one pass of the loop, used to state its result.
\<close>

definition base_change :: "nat \<times> axis \<Rightarrow> operation list" where
  "base_change f = (case f of (q, a) \<Rightarrow>
     (case a of X \<Rightarrow> [H q] | Y \<Rightarrow> [RX (truediv np_pi (Number 2)) q] | Z \<Rightarrow> []))"

definition base_reversal :: "nat \<times> axis \<Rightarrow> operation list" where
  "base_reversal f = (case f of (q, a) \<Rightarrow>
     (case a of X \<Rightarrow> [H q]
      | Y \<Rightarrow> [RX (truediv (py_mul (Number (- 1)) np_pi) (Number 2)) q] | Z \<Rightarrow> []))"

section \<open>The results of the derivative loops\<close>

text \<open>
  The values that one pass of the loops of \<^verbatim>\<open>time_evolution_derivatives\<close> computes
  when nothing is raised: the shift, the angle of term \<open>j\<close> in the circuit perturbed at
  term \<open>i\<close>, and that circuit.
\<close>

definition shift_of :: "expr \<Rightarrow> int \<Rightarrow> expr \<Rightarrow> expr" where
  "shift_of coefficient trotter_order factor =
     py_mul factor
       (truediv np_pi (py_mul (Number 4) (truediv coefficient (of_py_int trotter_order))))"

definition perturbed_angle :: "expr \<Rightarrow> int \<Rightarrow> nat \<Rightarrow> expr \<Rightarrow> nat \<Rightarrow> expr" where
  "perturbed_angle time trotter_order i shift j =
     (if i = j then truediv (py_add time shift) (of_py_int trotter_order)
      else truediv time (of_py_int trotter_order))"

definition perturbed_step ::
  "qubit_operator list \<Rightarrow> expr \<Rightarrow> int \<Rightarrow> nat \<Rightarrow> expr \<Rightarrow> circuit" where
  "perturbed_step terms' time trotter_order i shift =
     foldl circuit_add (Circuit [])
       (map (\<lambda>(j, term_2).
               projr (time_evolution_for_term term_2
                        (perturbed_angle time trotter_order i shift j)))
          (enumerate 0 terms'))"

text \<open>An operator whose \<^verbatim>\<open>terms\<close> hold exactly one entry, and the coefficient of it.\<close>

definition single_term :: "qubit_operator \<Rightarrow> bool" where
  "single_term term = (length (terms term) = 1)"

definition coefficient_of :: "qubit_operator \<Rightarrow> expr" where
  "coefficient_of term = snd (hd (terms term))"

text \<open>
  The two circuits and the two factors that the loop over \<^verbatim>\<open>factors\<close> appends for
  one term.
\<close>

definition term_derivatives ::
  "qubit_operator list \<Rightarrow> expr \<Rightarrow> int \<Rightarrow> nat \<times> qubit_operator \<Rightarrow> circuit list" where
  "term_derivatives terms' time trotter_order entry =
     (case entry of (i, term_1) \<Rightarrow>
        map (\<lambda>factor. perturbed_step terms' time trotter_order i
                         (shift_of (coefficient_of term_1) trotter_order factor))
          [Number 1, Number (- 1)])"

definition term_factors :: "int \<Rightarrow> qubit_operator \<Rightarrow> expr list" where
  "term_factors trotter_order term_1 =
     map (\<lambda>factor. py_mul (truediv (coefficient_of term_1) (of_py_int trotter_order)) factor)
       [Number 1, Number (- 1)]"

section \<open>The circuit of one Pauli term\<close>

lemma foldl_circuit_add_gate:
  "foldl circuit_add_gate c gs = Circuit (operations c @ gs)"
  by (induction gs arbitrary: c) (simp_all add: circuit_add_gate_def)

lemma enumerate_zip_nth:
  "enumerate 0 (zip (map snd cs) (map fst cs)) =
     map (\<lambda>i. (i, snd (cs ! i), fst (cs ! i))) [0..<length cs]"
  by (rule nth_equalityI) (simp_all add: nth_enumerate_eq)

lemma term_loop_body_inner:
  "i \<noteq> length cs - 1 \<Longrightarrow>
   term_loop_body cs qs time coefficient st (i, ty, q) =
   st\<lparr>base_changes := base_changes st @ base_change (q, ty),
      base_reversals := base_reversals st @ base_reversal (q, ty),
      cnot_gates := cnot_gates st @ [CNOT q (qs ! (i + 1))]\<rparr>"
  by (cases ty) (simp_all add: term_loop_body_def base_change_def base_reversal_def)

lemma term_loop_body_last:
  "i = length cs - 1 \<Longrightarrow>
   term_loop_body cs qs time coefficient st (i, ty, q) =
   st\<lparr>base_changes := base_changes st @ base_change (q, ty),
      base_reversals := base_reversals st @ base_reversal (q, ty),
      central_gate := Some (RZ (py_mul (py_mul (Number 2) time) coefficient) q)\<rparr>"
  by (cases ty) (simp_all add: term_loop_body_def base_change_def base_reversal_def)

lemma term_loop_prefix:
  "m \<le> length cs - 1 \<Longrightarrow>
   foldl (term_loop_body cs (map fst cs) time coefficient) st
     (map (\<lambda>i. (i, snd (cs ! i), fst (cs ! i))) [0..<m]) =
   st\<lparr>base_changes := base_changes st @ concat (map base_change (take m cs)),
      base_reversals := base_reversals st @ concat (map base_reversal (take m cs)),
      cnot_gates := cnot_gates st
        @ map (\<lambda>i. CNOT (fst (cs ! i)) (fst (cs ! (i + 1)))) [0..<m]\<rparr>"
proof (induction m)
  case 0
  then show ?case by simp
next
  case (Suc m)
  then have m: "m \<noteq> length cs - 1" "m < length cs" "Suc m < length cs" "m \<le> length cs - 1"
    by simp_all
  show ?case
    using m(2,3)
    by (simp add: Suc.IH [OF m(4)] term_loop_body_inner [OF m(1)] take_Suc_conv_app_nth)
qed

lemma term_loop_all:
  assumes "cs \<noteq> []"
  shows "foldl (term_loop_body cs (map fst cs) time coefficient)
     \<lparr>base_changes = [], base_reversals = [], cnot_gates = [], central_gate = None\<rparr>
     (enumerate 0 (zip (map snd cs) (map fst cs))) =
   \<lparr>base_changes = concat (map base_change cs),
    base_reversals = concat (map base_reversal cs),
    cnot_gates = map (\<lambda>i. CNOT (fst (cs ! i)) (fst (cs ! (i + 1)))) [0..<length cs - 1],
    central_gate = Some (RZ (py_mul (py_mul (Number 2) time) coefficient) (fst (last cs)))\<rparr>"
proof -
  from assms have len: "length cs = Suc (length cs - 1)" by simp
  have upt: "[0..<length cs] = [0..<length cs - 1] @ [length cs - 1]"
    by (subst len) simp
  have lst: "cs ! (length cs - 1) = last cs"
    using assms by (simp add: last_conv_nth)
  have cat: "concat (map f (take (length cs - 1) cs)) @ f (last cs) = concat (map f cs)"
    for f :: "nat \<times> axis \<Rightarrow> operation list"
  proof -
    have "concat (map f (butlast cs @ [last cs])) = concat (map f cs)"
      using assms by simp
    then show ?thesis by (simp add: butlast_conv_take)
  qed
  show ?thesis
    using lst cat [of base_change] cat [of base_reversal]
    by (simp add: enumerate_zip_nth upt term_loop_prefix term_loop_body_last
        del: upt_Suc)
qed


lemma time_evolution_for_term_single:
  assumes "cs \<noteq> []"
  shows "time_evolution_for_term \<lparr>terms = [(cs, coefficient)]\<rparr> time =
     Inr (Circuit
       (concat (map base_change cs)
        @ map (\<lambda>i. CNOT (fst (cs ! i)) (fst (cs ! (i + 1)))) [0..<length cs - 1]
        @ [RZ (py_mul (py_mul (Number 2) time) coefficient) (fst (last cs))]
        @ rev (map (\<lambda>i. CNOT (fst (cs ! i)) (fst (cs ! (i + 1)))) [0..<length cs - 1])
        @ concat (map base_reversal cs)))"
  using assms
  by (simp add: time_evolution_for_term_def Let_def term_loop_all foldl_circuit_add_gate
      circuit_add_gate_def)

lemma base_change_eq:
  "base_change = (\<lambda>(qubit, a). case a of X \<Rightarrow> [H qubit]
       | Y \<Rightarrow> [RX (Number (complex_of_real (pi / 2))) qubit] | Z \<Rightarrow> [])"
  by (auto simp: base_change_def np_pi_def fun_eq_iff split: axis.splits)

lemma base_reversal_eq:
  "base_reversal = (\<lambda>(qubit, a). case a of X \<Rightarrow> [H qubit]
       | Y \<Rightarrow> [RX (Number (complex_of_real (- pi / 2))) qubit] | Z \<Rightarrow> [])"
  by (auto simp: base_reversal_def np_pi_def fun_eq_iff split: axis.splits)

text \<open>
  Claim C1. For a Pauli term with at least one (qubit, axis) factor and any angle
  \<open>time\<close>, \<open>time_evolution_for_term\<close> returns the circuit whose gates are, in this order:
  the basis changes in term order (\<open>H\<close> for an \<open>X\<close> factor, \<open>RX(\<pi>/2)\<close> for a \<open>Y\<close>
  factor, nothing for \<open>Z\<close>), the staircase \<open>CNOT(qubit i, qubit i + 1)\<close> for
  \<open>i = 0, ..., k - 2\<close>, one \<open>RZ(2 * time * coefficient)\<close> on the last qubit of the term,
  the staircase reversed, and the basis reversals in term order (\<open>H\<close> for \<open>X\<close>,
  \<open>RX(- \<pi>/2)\<close> for \<open>Y\<close>).
\<close>

theorem time_evolution_for_term_gate_order:
  assumes "term_components \<noteq> []"
  shows "time_evolution_for_term \<lparr>terms = [(term_components, coefficient)]\<rparr> time =
     Inr (Circuit
       (concat (map (\<lambda>(qubit, a). case a of X \<Rightarrow> [H qubit]
                  | Y \<Rightarrow> [RX (Number (complex_of_real (pi / 2))) qubit] | Z \<Rightarrow> [])
          term_components)
        @ map (\<lambda>i. CNOT (fst (term_components ! i)) (fst (term_components ! (i + 1))))
            [0..<length term_components - 1]
        @ [RZ (py_mul (py_mul (Number 2) time) coefficient) (fst (last term_components))]
        @ rev (map (\<lambda>i. CNOT (fst (term_components ! i)) (fst (term_components ! (i + 1))))
            [0..<length term_components - 1])
        @ concat (map (\<lambda>(qubit, a). case a of X \<Rightarrow> [H qubit]
                  | Y \<Rightarrow> [RX (Number (complex_of_real (- pi / 2))) qubit] | Z \<Rightarrow> [])
          term_components)))"
  unfolding time_evolution_for_term_single [OF assms] base_change_eq base_reversal_eq ..

text \<open>
  The term \<open>Z\<close> on qubit 0 and \<open>X\<close> on qubit 1 with coefficient \<open>c\<close> at time \<open>t\<close>:
  \<open>H(1)\<close>, \<open>CNOT(0, 1)\<close>, \<open>RZ(2 * t * c)(1)\<close>, \<open>CNOT(0, 1)\<close>, \<open>H(1)\<close>.
\<close>

theorem time_evolution_for_term_gate_order_witness:
  "time_evolution_for_term \<lparr>terms = [([(0, Z), (1, X)], Symbol ''c'')]\<rparr> (Symbol ''t'') =
     Inr (Circuit [H 1, CNOT 0 1, RZ (Mul (Mul (Number 2) (Symbol ''t'')) (Symbol ''c'')) 1,
                   CNOT 0 1, H 1])"
  using time_evolution_for_term_gate_order [of "[(0, Z), (1, X)]" "Symbol ''c''" "Symbol ''t''"]
  by simp

section \<open>Circuits as sequences\<close>

lemma foldl_circuit_add:
  "foldl circuit_add c cs = Circuit (operations c @ concat (map operations cs))"
  by (induction cs arbitrary: c) (simp_all add: circuit_add_def)

section \<open>Errors of time_evolution_for_term\<close>

lemma time_evolution_for_term_returns:
  "\<exists>c. time_evolution_for_term \<lparr>terms = [(cs, coefficient)]\<rparr> time = Inr c"
proof (cases "cs = []")
  case True
  then show ?thesis by (simp add: time_evolution_for_term_def)
next
  case False
  then show ?thesis by (simp add: time_evolution_for_term_single)
qed

text \<open>
  Claim C8. \<open>time_evolution_for_term\<close> raises the error about a single term exactly
  when the \<open>terms\<close> of the operator hold no entry or more than one entry; with exactly
  one entry it raises nothing at all.
\<close>

theorem time_evolution_for_term_malformed:
  "(time_evolution_for_term term time =
      Inl (ValueError ''This function works only on a single term.''))
     = (length (terms term) \<noteq> 1)
   \<and> isl (time_evolution_for_term term time) = (length (terms term) \<noteq> 1)"
proof (cases "length (terms term) = 1")
  case True
  then obtain cs coefficient where "terms term = [(cs, coefficient)]"
    by (cases "terms term") auto
  then have "term = \<lparr>terms = [(cs, coefficient)]\<rparr>" by (cases "term") simp
  with time_evolution_for_term_returns [of cs coefficient time] True
  show ?thesis by auto
next
  case False
  then show ?thesis by (simp add: time_evolution_for_term_def)
qed

theorem time_evolution_for_term_malformed_witness:
  "time_evolution_for_term \<lparr>terms = []\<rparr> (Number 1) =
      Inl (ValueError ''This function works only on a single term.'')
   \<and> time_evolution_for_term
       \<lparr>terms = [([(0, Z)], Number 1), ([(1, X)], Number 2)]\<rparr> (Number 1) =
      Inl (ValueError ''This function works only on a single term.'')
   \<and> \<not> isl (time_evolution_for_term \<lparr>terms = [([(0, Z)], Number 1)]\<rparr> (Number 1))"
  using time_evolution_for_term_malformed [of "\<lparr>terms = []\<rparr>" "Number 1"]
    time_evolution_for_term_malformed
      [of "\<lparr>terms = [([(0, Z)], Number 1), ([(1, X)], Number 2)]\<rparr>" "Number 1"]
    time_evolution_for_term_malformed [of "\<lparr>terms = [([(0, Z)], Number 1)]\<rparr>" "Number 1"]
  by simp

section \<open>The splicing helper\<close>

lemma generate_circuit_sequence_ok:
  "position < len \<Longrightarrow>
   generate_circuit_sequence R D len position =
     Inr (Circuit (concat (map operations
       (map (\<lambda>i. if int i = position then D else R) [0..<nat len]))))"
  by (auto simp add: generate_circuit_sequence_def py_range_def comp_def
      intro!: arg_cong [where f = concat])

text \<open>
  Claim C5. For circuits \<open>R\<close> and \<open>D\<close> and \<open>position < len\<close>,
  \<open>generate_circuit_sequence\<close> returns the concatenation of \<open>len\<close> circuit instances,
  instance \<open>i\<close> being \<open>D\<close> when \<open>i = position\<close> and \<open>R\<close> otherwise; with
  \<open>position \<ge> len\<close> it raises the error about the position. In particular
  \<open>len = 3\<close>, \<open>position = 1\<close> gives \<open>R + D + R\<close>, and \<open>position = 3\<close> raises.
\<close>

theorem generate_circuit_sequence_splice:
  "(position < len \<longrightarrow>
      (\<exists>instances. length instances = nat len
         \<and> (\<forall>i < nat len. instances ! i = (if int i = position then D else R))
         \<and> generate_circuit_sequence R D len position =
             Inr (foldl circuit_add (Circuit []) instances)))
   \<and> (len \<le> position \<longrightarrow>
      generate_circuit_sequence R D len position =
        Inl (ValueError (''Position '' @ str_int position @ '' should be < '' @ str_int len)))
   \<and> generate_circuit_sequence R D 3 1 = Inr (circuit_add (circuit_add R D) R)
   \<and> generate_circuit_sequence R D 3 3 = Inl (ValueError ''Position 3 should be < 3'')"
proof (intro conjI impI)
  assume lt: "position < len"
  let ?instances = "map (\<lambda>i. if int i = position then D else R) [0..<nat len]"
  have "length ?instances = nat len" by simp
  moreover have "\<forall>i < nat len. ?instances ! i = (if int i = position then D else R)"
    by simp
  moreover have "generate_circuit_sequence R D len position =
      Inr (foldl circuit_add (Circuit []) ?instances)"
    by (simp only: generate_circuit_sequence_ok [OF lt] foldl_circuit_add) simp
  ultimately show "\<exists>instances. length instances = nat len
         \<and> (\<forall>i < nat len. instances ! i = (if int i = position then D else R))
         \<and> generate_circuit_sequence R D len position =
             Inr (foldl circuit_add (Circuit []) instances)"
    by blast
next
  assume "len \<le> position"
  then show "generate_circuit_sequence R D len position =
        Inl (ValueError (''Position '' @ str_int position @ '' should be < '' @ str_int len))"
    by (simp add: generate_circuit_sequence_def)
next
  have "[0..<nat 3] = [0, 1, 2]" by (simp add: upt_rec)
  then show "generate_circuit_sequence R D 3 1 = Inr (circuit_add (circuit_add R D) R)"
    by (simp add: generate_circuit_sequence_ok circuit_add_def)
next
  show "generate_circuit_sequence R D 3 3 = Inl (ValueError ''Position 3 should be < 3'')"
    by (simp add: generate_circuit_sequence_def str_int_def)
qed

theorem generate_circuit_sequence_splice_witness:
  "generate_circuit_sequence (Circuit [H 0]) (Circuit [RZ (Number 1) 0]) 3 1 =
     Inr (Circuit [H 0, RZ (Number 1) 0, H 0])
   \<and> generate_circuit_sequence (Circuit [H 0]) (Circuit [RZ (Number 1) 0]) 3 3 =
     Inl (ValueError ''Position 3 should be < 3'')
   \<and> generate_circuit_sequence (Circuit [H 0]) (Circuit [RZ (Number 1) 0]) 2 5 =
     Inl (ValueError ''Position 5 should be < 2'')"
  using generate_circuit_sequence_splice [of 1 3 "Circuit [RZ (Number 1) 0]" "Circuit [H 0]"]
    generate_circuit_sequence_splice [of 5 2 "Circuit [RZ (Number 1) 0]" "Circuit [H 0]"]
  by (simp add: circuit_add_def str_int_def)

text \<open>
  Claim C10. For a negative \<open>position\<close> and \<open>len \<ge> 0\<close>,
  \<open>generate_circuit_sequence\<close> raises nothing and returns \<open>len\<close> copies of the
  repeated circuit, the different circuit not among them; the call raises exactly when
  \<open>position \<ge> len\<close>.
\<close>

theorem generate_circuit_sequence_negative_position:
  "(position < 0 \<and> 0 \<le> len \<longrightarrow>
      generate_circuit_sequence R D len position =
        Inr (foldl circuit_add (Circuit []) (replicate (nat len) R)))
   \<and> isl (generate_circuit_sequence R D len position) = (len \<le> position)"
proof (intro conjI impI)
  assume a: "position < 0 \<and> 0 \<le> len"
  then have "position < len" by simp
  moreover from a have "map (\<lambda>i. if int i = position then D else R) [0..<nat len]
      = replicate (nat len) R"
    by (intro nth_equalityI) auto
  ultimately show "generate_circuit_sequence R D len position =
        Inr (foldl circuit_add (Circuit []) (replicate (nat len) R))"
    by (simp only: generate_circuit_sequence_ok foldl_circuit_add) simp
next
  show "isl (generate_circuit_sequence R D len position) = (len \<le> position)"
    by (simp add: generate_circuit_sequence_def)
qed

theorem generate_circuit_sequence_negative_position_witness:
  "generate_circuit_sequence (Circuit [H 0]) (Circuit [RZ (Number 1) 0]) 2 (- 1) =
     Inr (Circuit [H 0, H 0])
   \<and> generate_circuit_sequence (Circuit [H 0]) (Circuit [RZ (Number 1) 0]) 0 (- 4) =
     Inr (Circuit [])"
  using generate_circuit_sequence_negative_position
      [of "- 1" 2 "Circuit [H 0]" "Circuit [RZ (Number 1) 0]"]
    generate_circuit_sequence_negative_position
      [of "- 4" 0 "Circuit [H 0]" "Circuit [RZ (Number 1) 0]"]
  by (simp add: circuit_add_def numeral_2_eq_2)

section \<open>Unsupported methods\<close>

text \<open>
  Claim C7. For every method other than \<open>''Trotter''\<close>, \<open>time_evolution\<close> and
  \<open>time_evolution_derivatives\<close> both raise a \<open>ValueError\<close> whose message contains the
  rejected method, and return nothing.
\<close>

theorem unsupported_method:
  "method \<noteq> ''Trotter'' \<Longrightarrow>
   time_evolution hamiltonian time method trotter_order =
     Inl (ValueError (''Currently the method '' @ method @ '' is not supported.''))
   \<and> time_evolution_derivatives hamiltonian time method trotter_order =
     Inl (ValueError (''The method '' @ method @ '' is currently not supported.''))"
  by (simp add: time_evolution_def time_evolution_derivatives_def)

theorem unsupported_method_witness:
  "time_evolution \<lparr>terms = [([(0, Z)], Number 1)]\<rparr> (Number 1) ''Suzuki'' 1 =
     Inl (ValueError ''Currently the method Suzuki is not supported.'')
   \<and> time_evolution_derivatives \<lparr>terms = [([(0, Z)], Number 1)]\<rparr> (Number 1) ''Suzuki'' 1 =
     Inl (ValueError ''The method Suzuki is currently not supported.'')"
  using unsupported_method [of "''Suzuki''" "\<lparr>terms = [([(0, Z)], Number 1)]\<rparr>" "Number 1" 1]
  by simp

section \<open>The Trotter composition\<close>

text \<open>
  Claim C6 says that \<open>time_evolution\<close> returns the empty circuit for a Hamiltonian
  without terms. The call of \<^verbatim>\<open>reduce\<close> has no initial value, so on the empty
  sequence of per-term circuits it raises \<^verbatim>\<open>TypeError\<close>, for every time and every
  \<open>trotter_order\<close>.
\<close>

theorem time_evolution_empty_hamiltonian:
  "time_evolution \<lparr>terms = []\<rparr> time ''Trotter'' trotter_order = Inl TypeError"
proof -
  have none: "concat (map (\<lambda>index_order. []) xs) = ([] :: (error + circuit) list)"
    for xs :: "int list"
    by (induction xs) simp_all
  show ?thesis
    by (simp add: time_evolution_def get_operators_def none)
qed

lemma py_div_nonzero:
  "b \<noteq> Number 0 \<Longrightarrow> py_div a b = Inr (truediv a b)"
  by (cases a; cases b) simp_all

lemma py_div_of_py_int:
  "n \<noteq> 0 \<Longrightarrow> py_div a (of_py_int n) = Inr (truediv a (of_py_int n))"
  by (simp add: py_div_nonzero of_py_int_def)

lemma operations_circuit_add:
  "operations (circuit_add a b) = operations a @ operations b"
  by (simp add: circuit_add_def)

lemma for_loop_reduce:
  "for_loop (\<lambda>acc next. and_then next (\<lambda>c. Inr (circuit_add acc c))) first (map Inr cs) =
     Inr (foldl circuit_add first cs)"
  by (induction cs arbitrary: first) simp_all

lemma reduce_add_circuits:
  "cs \<noteq> [] \<Longrightarrow> reduce_add (map Inr cs) = Inr (foldl circuit_add (Circuit []) cs)"
  by (cases cs) (simp_all add: for_loop_reduce foldl_circuit_add operations_circuit_add)

lemma concat_map_const:
  "concat (map (\<lambda>x. ys) xs) = concat (replicate (length xs) ys)"
  by (induction xs) simp_all

lemma get_operators_return:
  "\<exists>per_term. map (\<lambda>term. time_evolution_for_term term angle) (get_operators hamiltonian) =
     map Inr per_term \<and> length per_term = length (terms hamiltonian)"
proof -
  let ?per_term = "map (\<lambda>term. projr (time_evolution_for_term term angle))
      (get_operators hamiltonian)"
  have "time_evolution_for_term term angle = Inr (projr (time_evolution_for_term term angle))"
    if "term \<in> set (get_operators hamiltonian)" for "term"
  proof -
    from that obtain cs coefficient where "term = \<lparr>terms = [(cs, coefficient)]\<rparr>"
      by (auto simp: get_operators_def)
    with time_evolution_for_term_returns [of cs coefficient angle] show ?thesis by auto
  qed
  then have "map (\<lambda>term. time_evolution_for_term term angle) (get_operators hamiltonian) =
     map Inr ?per_term"
    by simp
  moreover have "length ?per_term = length (terms hamiltonian)"
    by (simp add: get_operators_def)
  ultimately show ?thesis by blast
qed

lemma time_evolution_closed:
  assumes per_term: "map (\<lambda>term. time_evolution_for_term term (truediv time (of_py_int trotter_order)))
       (get_operators hamiltonian) = map Inr per_term"
    and nonempty: "terms hamiltonian \<noteq> []" and pos: "0 < trotter_order"
  shows "time_evolution hamiltonian time ''Trotter'' trotter_order =
     Inr (foldl circuit_add (Circuit []) (concat (replicate (nat trotter_order) per_term)))"
proof -
  have ne: "per_term \<noteq> []"
    using per_term nonempty by (auto simp: get_operators_def)
  have "concat (replicate (nat trotter_order) per_term) \<noteq> []"
    using ne pos by (cases "nat trotter_order") auto
  then have "reduce_add (map Inr (concat (replicate (nat trotter_order) per_term))) =
     Inr (foldl circuit_add (Circuit []) (concat (replicate (nat trotter_order) per_term)))"
    by (rule reduce_add_circuits)
  moreover have "concat (map (\<lambda>index_order.
                map (\<lambda>term.
                  and_then (py_div time (of_py_int trotter_order))
                    (time_evolution_for_term term)) (get_operators hamiltonian))
                (py_range trotter_order)) =
     map Inr (concat (replicate (nat trotter_order) per_term))"
    using pos per_term
    by (simp add: py_div_of_py_int concat_map_const py_range_def map_concat comp_def)
  ultimately show ?thesis
    by (simp add: time_evolution_def)
qed

text \<open>
  Claim C2. For a Hamiltonian with at least one term, the method \<open>''Trotter''\<close> and a
  positive \<open>trotter_order\<close>, every call of \<open>time_evolution_for_term\<close> at the angle
  \<open>time / trotter_order\<close> returns a circuit, and \<open>time_evolution\<close> returns the
  concatenation of these per-term circuits in nested-loop order, the repetition index
  outermost and the term index innermost. In particular, for \<open>trotter_order = 2\<close> and
  the terms \<open>T1, T2\<close> with circuits \<open>c1, c2\<close> at \<open>time / 2\<close>, the result is
  \<open>c1 + c2 + c1 + c2\<close>.
\<close>

theorem time_evolution_trotter:
  "(terms hamiltonian \<noteq> [] \<and> 0 < trotter_order \<longrightarrow>
     (\<exists>per_term.
        map (\<lambda>term. time_evolution_for_term term (truediv time (of_py_int trotter_order)))
          (get_operators hamiltonian) = map Inr per_term
        \<and> time_evolution hamiltonian time ''Trotter'' trotter_order =
            Inr (foldl circuit_add (Circuit [])
                   (concat (map (\<lambda>index_order. per_term) [0..<nat trotter_order])))))
   \<and> (get_operators hamiltonian = [T1, T2]
        \<and> time_evolution_for_term T1 (truediv time (of_py_int 2)) = Inr c1
        \<and> time_evolution_for_term T2 (truediv time (of_py_int 2)) = Inr c2 \<longrightarrow>
      time_evolution hamiltonian time ''Trotter'' 2 =
        Inr (circuit_add (circuit_add (circuit_add c1 c2) c1) c2))"
proof (intro conjI impI)
  assume a: "terms hamiltonian \<noteq> [] \<and> 0 < trotter_order"
  obtain per_term where
    p: "map (\<lambda>term. time_evolution_for_term term (truediv time (of_py_int trotter_order)))
          (get_operators hamiltonian) = map Inr per_term"
    using get_operators_return by blast
  from time_evolution_closed [OF p] a
  have "time_evolution hamiltonian time ''Trotter'' trotter_order =
            Inr (foldl circuit_add (Circuit [])
                   (concat (map (\<lambda>index_order. per_term) [0..<nat trotter_order])))"
    by (simp add: concat_map_const)
  with p show "\<exists>per_term.
        map (\<lambda>term. time_evolution_for_term term (truediv time (of_py_int trotter_order)))
          (get_operators hamiltonian) = map Inr per_term
        \<and> time_evolution hamiltonian time ''Trotter'' trotter_order =
            Inr (foldl circuit_add (Circuit [])
                   (concat (map (\<lambda>index_order. per_term) [0..<nat trotter_order])))"
    by blast
next
  assume a: "get_operators hamiltonian = [T1, T2]
        \<and> time_evolution_for_term T1 (truediv time (of_py_int 2)) = Inr c1
        \<and> time_evolution_for_term T2 (truediv time (of_py_int 2)) = Inr c2"
  then have p: "map (\<lambda>term. time_evolution_for_term term (truediv time (of_py_int 2)))
          (get_operators hamiltonian) = map Inr [c1, c2]"
    by simp
  from a have ne: "terms hamiltonian \<noteq> []"
    by (auto simp: get_operators_def)
  have "replicate (nat 2) [c1, c2] = [[c1, c2], [c1, c2]]"
    by (simp add: numeral_2_eq_2)
  with time_evolution_closed [OF p ne]
  show "time_evolution hamiltonian time ''Trotter'' 2 =
        Inr (circuit_add (circuit_add (circuit_add c1 c2) c1) c2)"
    by (simp add: circuit_add_def)
qed

theorem time_evolution_trotter_witness:
  "time_evolution \<lparr>terms = [([(0, Z)], Symbol ''a''), ([(1, X)], Symbol ''b'')]\<rparr>
     (Symbol ''t'') ''Trotter'' 2 =
   Inr (Circuit
     [RZ (Mul (Mul (Number 2) (Div (Symbol ''t'') (Number 2))) (Symbol ''a'')) 0,
      H 1, RZ (Mul (Mul (Number 2) (Div (Symbol ''t'') (Number 2))) (Symbol ''b'')) 1, H 1,
      RZ (Mul (Mul (Number 2) (Div (Symbol ''t'') (Number 2))) (Symbol ''a'')) 0,
      H 1, RZ (Mul (Mul (Number 2) (Div (Symbol ''t'') (Number 2))) (Symbol ''b'')) 1, H 1])"
  using time_evolution_trotter
    [of "\<lparr>terms = [([(0, Z)], Symbol ''a''), ([(1, X)], Symbol ''b'')]\<rparr>" 2 "Symbol ''t''"
      "\<lparr>terms = [([(0, Z)], Symbol ''a'')]\<rparr>" "\<lparr>terms = [([(1, X)], Symbol ''b'')]\<rparr>"
      "Circuit [RZ (Mul (Mul (Number 2) (Div (Symbol ''t'') (Number 2))) (Symbol ''a'')) 0]"
      "Circuit [H 1, RZ (Mul (Mul (Number 2) (Div (Symbol ''t'') (Number 2))) (Symbol ''b'')) 1,
         H 1]"]
  by (simp add: get_operators_def of_py_int_def time_evolution_for_term_single
      base_change_def base_reversal_def circuit_add_def)

section \<open>The derivative circuits\<close>

lemma for_loop_total:
  "(\<And>s x. x \<in> set xs \<Longrightarrow> body s x = Inr (g s x)) \<Longrightarrow>
   for_loop body s xs = Inr (foldl g s xs)"
  by (induction xs arbitrary: s) simp_all

lemma single_term_returns:
  "single_term term \<Longrightarrow>
   time_evolution_for_term term angle = Inr (projr (time_evolution_for_term term angle))"
proof -
  assume "single_term term"
  then obtain cs coefficient where "terms term = [(cs, coefficient)]"
    by (cases "terms term") (auto simp: single_term_def)
  then have "term = \<lparr>terms = [(cs, coefficient)]\<rparr>" by (cases "term") simp
  with time_evolution_for_term_returns [of cs coefficient angle]
  show ?thesis by auto
qed

lemma single_term_add:
  "single_term term \<Longrightarrow>
   and_then (time_evolution_for_term term angle) (\<lambda>c. Inr (circuit_add output c)) =
     Inr (circuit_add output (projr (time_evolution_for_term term angle)))"
  using single_term_returns [of "term" angle]
  by (cases "time_evolution_for_term term angle") simp_all

lemma inner_loop_closed:
  assumes r: "trotter_order \<noteq> 0" and single: "\<forall>term \<in> set terms'. single_term term"
  shows "for_loop
           (\<lambda>output (j, term_2).
              and_then
                (if i = j
                 then py_div (py_add time shift) (of_py_int trotter_order)
                 else py_div time (of_py_int trotter_order))
                (\<lambda>angle.
                   and_then (time_evolution_for_term term_2 angle)
                     (\<lambda>c. Inr (circuit_add output c))))
           (Circuit []) (enumerate 0 terms') =
         Inr (perturbed_step terms' time trotter_order i shift)"
proof -
  let ?g = "\<lambda>output (j, term_2). circuit_add output
      (projr (time_evolution_for_term term_2 (perturbed_angle time trotter_order i shift j)))"
  have "for_loop
           (\<lambda>output (j, term_2).
              and_then
                (if i = j
                 then py_div (py_add time shift) (of_py_int trotter_order)
                 else py_div time (of_py_int trotter_order))
                (\<lambda>angle.
                   and_then (time_evolution_for_term term_2 angle)
                     (\<lambda>c. Inr (circuit_add output c))))
           (Circuit []) (enumerate 0 terms') =
        Inr (foldl ?g (Circuit []) (enumerate 0 terms'))"
  proof (rule for_loop_total)
    fix s :: circuit and x :: "nat \<times> qubit_operator"
    assume "x \<in> set (enumerate 0 terms')"
    then have "snd x \<in> set terms'"
      by (metis in_set_zipE enumerate_eq_zip prod.collapse)
    with single have st: "single_term (snd x)" by blast
    show "(case x of (j, term_2) \<Rightarrow>
              and_then
                (if i = j
                 then py_div (py_add time shift) (of_py_int trotter_order)
                 else py_div time (of_py_int trotter_order))
                (\<lambda>angle.
                   and_then (time_evolution_for_term term_2 angle)
                     (\<lambda>c. Inr (circuit_add s c)))) = Inr (?g s x)"
      using r st
      by (cases x) (simp add: py_div_of_py_int perturbed_angle_def single_term_add)
  qed
  also have "foldl ?g (Circuit []) (enumerate 0 terms') =
      perturbed_step terms' time trotter_order i shift"
    by (simp add: perturbed_step_def foldl_map case_prod_unfold)
  finally show ?thesis .
qed

lemma shift_denominator_nonzero:
  "coefficient \<noteq> Number 0 \<Longrightarrow> trotter_order \<noteq> 0 \<Longrightarrow>
   py_mul (Number 4) (truediv coefficient (of_py_int trotter_order)) \<noteq> Number 0"
  by (cases coefficient) (simp_all add: of_py_int_def)

lemma derivative_loop_body_closed:
  assumes r: "trotter_order \<noteq> 0" and single: "\<forall>term \<in> set terms'. single_term term"
    and term_1: "single_term term_1" and c: "coefficient_of term_1 \<noteq> Number 0"
  shows "derivative_loop_body terms' time trotter_order i term_1
           (derivatives, output_factors) factor =
         Inr (derivatives
                @ [perturbed_step terms' time trotter_order i
                     (shift_of (coefficient_of term_1) trotter_order factor)],
              output_factors
                @ [py_mul (truediv (coefficient_of term_1) (of_py_int trotter_order)) factor])"
proof -
  from term_1 obtain entry where e: "terms term_1 = [entry]"
    by (cases "terms term_1") (auto simp: single_term_def)
  then have co: "snd entry = coefficient_of term_1"
    by (simp add: coefficient_of_def)
  show ?thesis
    using r c
    by (simp add: derivative_loop_body_def e co py_div_of_py_int py_div_nonzero
        shift_denominator_nonzero inner_loop_closed [OF r single] shift_of_def)
qed

lemma for_loop_collect:
  assumes "\<And>cs fs x. x \<in> set xs \<Longrightarrow> body (cs, fs) x = Inr (cs @ C x, fs @ F x)"
  shows "for_loop body (cs, fs) xs = Inr (cs @ concat (map C xs), fs @ concat (map F xs))"
  using assms
  by (induction xs arbitrary: cs fs) simp_all

lemma snd_enumerate_mem:
  "x \<in> set (enumerate n xs) \<Longrightarrow> snd x \<in> set xs"
  by (metis in_set_zipE enumerate_eq_zip prod.collapse)

lemma derivative_term_step:
  assumes r: "trotter_order \<noteq> 0" and single: "\<forall>term \<in> set terms'. single_term term"
    and t: "single_term t" "coefficient_of t \<noteq> Number 0"
  shows "for_loop (derivative_loop_body terms' time trotter_order i t) (cs, fs)
             [Number 1, Number (- 1)] =
       Inr (cs @ term_derivatives terms' time trotter_order (i, t),
            fs @ term_factors trotter_order t)"
  by (simp add: derivative_loop_body_closed [OF r single t]
      term_derivatives_def term_factors_def)

lemma map_snd_enumerate_fun:
  "map (\<lambda>x. f (snd x)) (enumerate n xs) = map f xs"
  by (induction xs arbitrary: n) simp_all

lemma single_trotter_derivatives_closed:
  assumes r: "trotter_order \<noteq> 0"
    and ts: "\<forall>term \<in> set terms'. single_term term \<and> coefficient_of term \<noteq> Number 0"
  shows "single_trotter_derivatives terms' time trotter_order =
      Inr (concat (map (term_derivatives terms' time trotter_order) (enumerate 0 terms')),
           concat (map (term_factors trotter_order) terms'))"
proof -
  from ts have single: "\<forall>term \<in> set terms'. single_term term" by blast
  have "for_loop
        (\<lambda>state (i, term_1).
           for_loop (derivative_loop_body terms' time trotter_order i term_1) state
             [Number 1, Number (- 1)])
        ([], []) (enumerate 0 terms') =
      Inr ([] @ concat (map (term_derivatives terms' time trotter_order) (enumerate 0 terms')),
           [] @ concat (map (\<lambda>x. term_factors trotter_order (snd x)) (enumerate 0 terms')))"
  proof (rule for_loop_collect)
    fix cs :: "circuit list" and fs :: "expr list" and x :: "nat \<times> qubit_operator"
    assume "x \<in> set (enumerate 0 terms')"
    then have "snd x \<in> set terms'" by (rule snd_enumerate_mem)
    with ts have t: "single_term (snd x)" "coefficient_of (snd x) \<noteq> Number 0"
      by blast+
    have "for_loop (derivative_loop_body terms' time trotter_order (fst x) (snd x)) (cs, fs)
             [Number 1, Number (- 1)] =
       Inr (cs @ term_derivatives terms' time trotter_order (fst x, snd x),
            fs @ term_factors trotter_order (snd x))"
      by (rule derivative_term_step [OF r single t])
    then show "(case x of (i, term_1) \<Rightarrow>
           for_loop (derivative_loop_body terms' time trotter_order i term_1) (cs, fs)
             [Number 1, Number (- 1)]) =
       Inr (cs @ term_derivatives terms' time trotter_order x,
            fs @ term_factors trotter_order (snd x))"
      by (simp only: case_prod_unfold prod.collapse)
  qed
  then show ?thesis
    by (simp only: single_trotter_derivatives_def Let_def map_snd_enumerate_fun append_Nil)
qed

lemma get_operators_single:
  assumes "\<forall>entry \<in> set (terms hamiltonian). snd entry \<noteq> Number 0"
  shows "\<forall>term \<in> set (get_operators hamiltonian).
           single_term term \<and> coefficient_of term \<noteq> Number 0"
  using assms
  by (auto simp: get_operators_def single_term_def coefficient_of_def)

lemma length_term_derivatives:
  "length (concat (map (term_derivatives terms' time trotter_order) es)) = 2 * length es"
  by (induction es) (simp_all add: term_derivatives_def case_prod_unfold)

lemma length_term_factors:
  "length (concat (map (term_factors trotter_order) ts)) = 2 * length ts"
  by (induction ts) (simp_all add: term_factors_def)

lemma time_evolution_derivatives_low_order:
  assumes r: "trotter_order \<noteq> 0" "trotter_order \<le> 1"
    and c: "\<forall>entry \<in> set (terms hamiltonian). snd entry \<noteq> Number 0"
  shows "time_evolution_derivatives hamiltonian time ''Trotter'' trotter_order =
      Inr (concat (map (term_derivatives (get_operators hamiltonian) time trotter_order)
                     (enumerate 0 (get_operators hamiltonian))),
           concat (map (term_factors trotter_order) (get_operators hamiltonian)))"
  using r(2)
  by (simp add: time_evolution_derivatives_def
      single_trotter_derivatives_closed [OF r(1) get_operators_single [OF c]])

lemma splice_loop:
  assumes p: "position < trotter_order"
  shows "for_loop
           (\<lambda>(output_circuits, final_factors) (factor, different_circuit).
              and_then
                (generate_circuit_sequence repeated_circuit
                   different_circuit trotter_order position)
                (\<lambda>c. Inr (output_circuits @ [c], final_factors @ [factor])))
           (cs, fs :: expr list) pairs =
         Inr (cs @ concat (map (\<lambda>x. [projr (generate_circuit_sequence repeated_circuit
                                   (snd x) trotter_order position)]) pairs),
              fs @ concat (map (\<lambda>x. [fst x]) pairs))"
proof (rule for_loop_collect)
  fix cs :: "circuit list" and fs :: "expr list" and x :: "expr \<times> circuit"
  show "(case (cs, fs) of
         (output_circuits, final_factors) \<Rightarrow>
           \<lambda>(factor, different_circuit).
              and_then
               (generate_circuit_sequence repeated_circuit different_circuit trotter_order
                 position)
               (\<lambda>c. Inr (output_circuits @ [c], final_factors @ [factor])))
         x =
        Inr (cs @ [projr (generate_circuit_sequence repeated_circuit (snd x) trotter_order
                       position)],
             fs @ [fst x])"
    using p by (cases x) (simp add: generate_circuit_sequence_ok)
qed

lemma concat_singletons:
  "concat (map (\<lambda>x. [f x]) xs) = map f xs"
  by (induction xs) simp_all

lemma position_loop:
  "for_loop
      (\<lambda>state position.
         for_loop
           (\<lambda>(output_circuits, final_factors) (factor, different_circuit).
              and_then
                (generate_circuit_sequence repeated_circuit
                   different_circuit trotter_order position)
                (\<lambda>c. Inr (output_circuits @ [c], final_factors @ [factor])))
           state pairs)
      ([], [] :: expr list) (py_range trotter_order) =
   Inr (concat (map (\<lambda>position.
                  map (\<lambda>x. projr (generate_circuit_sequence repeated_circuit
                                   (snd x) trotter_order position)) pairs)
                 (py_range trotter_order)),
        concat (map (\<lambda>position. map fst pairs) (py_range trotter_order)))"
proof -
  have "for_loop
      (\<lambda>state position.
         for_loop
           (\<lambda>(output_circuits, final_factors) (factor, different_circuit).
              and_then
                (generate_circuit_sequence repeated_circuit
                   different_circuit trotter_order position)
                (\<lambda>c. Inr (output_circuits @ [c], final_factors @ [factor])))
           state pairs)
      ([], [] :: expr list) (py_range trotter_order) =
   Inr ([] @ concat (map (\<lambda>position.
                  concat (map (\<lambda>x. [projr (generate_circuit_sequence repeated_circuit
                                   (snd x) trotter_order position)]) pairs))
                 (py_range trotter_order)),
        [] @ concat (map (\<lambda>position. concat (map (\<lambda>x. [fst x]) pairs))
                 (py_range trotter_order)))"
  proof (rule for_loop_collect)
    fix cs :: "circuit list" and fs :: "expr list" and x :: int
    assume "x \<in> set (py_range trotter_order)"
    then have "x < trotter_order" by (auto simp: py_range_def)
    then show "for_loop
           (\<lambda>(output_circuits, final_factors) (factor, different_circuit).
              and_then
                (generate_circuit_sequence repeated_circuit
                   different_circuit trotter_order x)
                (\<lambda>c. Inr (output_circuits @ [c], final_factors @ [factor])))
           (cs, fs) pairs =
         Inr (cs @ concat (map (\<lambda>x'. [projr (generate_circuit_sequence repeated_circuit
                                   (snd x') trotter_order x)]) pairs),
              fs @ concat (map (\<lambda>x. [fst x]) pairs))"
      by (rule splice_loop)
  qed
  then show ?thesis
    by (simp only: concat_singletons append_Nil)
qed

lemma time_evolution_returns:
  assumes "terms hamiltonian \<noteq> []" and "0 < trotter_order"
  shows "\<exists>c. time_evolution hamiltonian time ''Trotter'' trotter_order = Inr c"
proof -
  obtain per_term where
    "map (\<lambda>term. time_evolution_for_term term (truediv time (of_py_int trotter_order)))
          (get_operators hamiltonian) = map Inr per_term"
    using get_operators_return by blast
  from time_evolution_closed [OF this assms] show ?thesis by blast
qed

lemma map_snd_zip_fun:
  "length xs = length ys \<Longrightarrow> map (\<lambda>x. f (snd x)) (zip xs ys) = map f ys"
  by (induction xs ys rule: list_induct2) simp_all

lemma time_evolution_derivatives_high_order:
  assumes r: "1 < trotter_order" and ne: "terms hamiltonian \<noteq> []"
    and c: "\<forall>entry \<in> set (terms hamiltonian). snd entry \<noteq> Number 0"
  shows "\<exists>repeated_circuit.
      time_evolution hamiltonian time ''Trotter'' 1 = Inr repeated_circuit
      \<and> time_evolution_derivatives hamiltonian time ''Trotter'' trotter_order =
        Inr (concat (map (\<lambda>position.
               map (\<lambda>different_circuit.
                      projr (generate_circuit_sequence repeated_circuit different_circuit
                               trotter_order position))
                 (concat (map (term_derivatives (get_operators hamiltonian) time trotter_order)
                     (enumerate 0 (get_operators hamiltonian)))))
               (py_range trotter_order)),
             concat (replicate (nat trotter_order)
               (concat (map (term_factors trotter_order) (get_operators hamiltonian)))))"
proof -
  let ?cs = "concat (map (term_derivatives (get_operators hamiltonian) time trotter_order)
                     (enumerate 0 (get_operators hamiltonian)))"
  let ?fs = "concat (map (term_factors trotter_order) (get_operators hamiltonian))"
  from r have r0: "trotter_order \<noteq> 0" by simp
  obtain repeated_circuit where
    rep: "time_evolution hamiltonian time ''Trotter'' 1 = Inr repeated_circuit"
    using time_evolution_returns [OF ne, of 1 time] by auto
  have len: "length ?fs = length ?cs"
    by (simp add: length_term_derivatives length_term_factors)
  have fsts: "concat (map (\<lambda>position. map fst (zip ?fs ?cs)) (py_range trotter_order)) =
      concat (replicate (nat trotter_order) ?fs)"
    using len by (simp add: concat_map_const py_range_def comp_def)
  have snds: "map (\<lambda>x. projr (generate_circuit_sequence repeated_circuit
                                   (snd x) trotter_order position)) (zip ?fs ?cs) =
      map (\<lambda>different_circuit.
             projr (generate_circuit_sequence repeated_circuit different_circuit
                      trotter_order position)) ?cs" for position
    by (rule map_snd_zip_fun [OF len])
  have "time_evolution_derivatives hamiltonian time ''Trotter'' trotter_order =
      Inr (concat (map (\<lambda>position.
                  map (\<lambda>x. projr (generate_circuit_sequence repeated_circuit
                                   (snd x) trotter_order position)) (zip ?fs ?cs))
                 (py_range trotter_order)),
        concat (map (\<lambda>position. map fst (zip ?fs ?cs)) (py_range trotter_order)))"
    using r
    by (simp only: time_evolution_derivatives_def Let_def rep position_loop
        single_trotter_derivatives_closed [OF r0 get_operators_single [OF c]]
        and_then.simps prod.case if_True if_False not_False_eq_True simp_thms)
  then have "time_evolution_derivatives hamiltonian time ''Trotter'' trotter_order =
        Inr (concat (map (\<lambda>position.
               map (\<lambda>different_circuit.
                      projr (generate_circuit_sequence repeated_circuit different_circuit
                               trotter_order position))
                 ?cs)
               (py_range trotter_order)),
             concat (replicate (nat trotter_order) ?fs))"
    by (simp only: fsts snds)
  with rep show ?thesis
    by (intro exI [of _ repeated_circuit] conjI)
qed

lemma perturbed_step_per_term:
  assumes single: "\<forall>term \<in> set terms'. single_term term"
  shows "\<exists>per_term. length per_term = length terms'
     \<and> (\<forall>j < length terms'.
          time_evolution_for_term (terms' ! j)
            (if j = i then truediv (py_add time shift) (of_py_int trotter_order)
             else truediv time (of_py_int trotter_order)) = Inr (per_term ! j))
     \<and> perturbed_step terms' time trotter_order i shift =
          foldl circuit_add (Circuit []) per_term"
proof -
  let ?per_term = "map (\<lambda>(j, term_2).
               projr (time_evolution_for_term term_2
                        (perturbed_angle time trotter_order i shift j)))
          (enumerate 0 terms')"
  have "length ?per_term = length terms'" by simp
  moreover have "\<forall>j < length terms'.
          time_evolution_for_term (terms' ! j)
            (if j = i then truediv (py_add time shift) (of_py_int trotter_order)
             else truediv time (of_py_int trotter_order)) = Inr (?per_term ! j)"
  proof (intro allI impI)
    fix j assume j: "j < length terms'"
    then have "single_term (terms' ! j)" using single by simp
    from single_term_returns [OF this, of "perturbed_angle time trotter_order i shift j"] j
    show "time_evolution_for_term (terms' ! j)
            (if j = i then truediv (py_add time shift) (of_py_int trotter_order)
             else truediv time (of_py_int trotter_order)) = Inr (?per_term ! j)"
      by (simp add: nth_enumerate_eq perturbed_angle_def eq_commute [of i j])
  qed
  moreover have "perturbed_step terms' time trotter_order i shift =
          foldl circuit_add (Circuit []) ?per_term"
    by (simp only: perturbed_step_def)
  ultimately show ?thesis by blast
qed

lemma shift_of_numeric:
  "shift_of (Number c) trotter_order (Number s) =
     Number (s * (complex_of_real pi / (4 * (c / of_int trotter_order))))"
  by (simp add: shift_of_def np_pi_def of_py_int_def)

lemma concat_pairs_nth:
  assumes "\<And>x. length (f x) = 2" and "i < length xs" and "k < 2"
  shows "concat (map f xs) ! (2 * i + k) = f (xs ! i) ! k"
  using assms(2)
proof (induction xs arbitrary: i)
  case Nil
  then show ?case by simp
next
  case (Cons x xs)
  show ?case
  proof (cases i)
    case 0
    then show ?thesis using assms(1) [of x] assms(3) by (simp add: nth_append)
  next
    case (Suc i')
    with Cons.prems have "i' < length xs" by simp
    from Cons.IH [OF this] Suc show ?thesis
      using assms(1) [of x] by (simp add: nth_append)
  qed
qed

lemma get_operators_nth:
  "i < length (terms hamiltonian) \<Longrightarrow>
   get_operators hamiltonian ! i =
     \<lparr>terms = [(fst (terms hamiltonian ! i), snd (terms hamiltonian ! i))]\<rparr>"
  by (simp add: get_operators_def case_prod_unfold)

lemma get_operators_all_single:
  "\<forall>term \<in> set (get_operators hamiltonian). single_term term"
  by (auto simp: get_operators_def single_term_def)

text \<open>
  Claim C3, amended. For a term \<open>i\<close> whose coefficient is a number \<open>c_i \<noteq> 0\<close>, a sign
  \<open>s\<close> and \<open>trotter_order \<noteq> 0\<close>, the pass of the loops for \<open>(i, s)\<close> uses the shift
  \<open>s * \<pi> / (4 * (c_i / trotter_order))\<close>: every per-term call returns a circuit, term
  \<open>i\<close> at the angle \<open>(time + shift) / trotter_order\<close> and every other term at
  \<open>time / trotter_order\<close>; the pass appends the concatenation of these circuits over
  all terms, once each and in term order, and the factor \<open>(c_i / trotter_order) * s\<close>.
  When no coefficient of the Hamiltonian is the number zero, the two loops return lists
  of twice as many circuits and factors as there are terms, where this circuit and this
  factor stand at index \<open>2 * i\<close> for \<open>s = 1\<close> and \<open>2 * i + 1\<close> for \<open>s = - 1\<close>.
\<close>

theorem derivative_shift_and_perturbed_circuit:
  assumes i: "i < length (terms hamiltonian)"
    and c: "snd (terms hamiltonian ! i) = Number c_i" "c_i \<noteq> 0"
    and r: "trotter_order \<noteq> 0"
  shows "\<exists>per_term.
      length per_term = length (terms hamiltonian)
      \<and> (\<forall>j < length (terms hamiltonian).
           time_evolution_for_term (get_operators hamiltonian ! j)
             (if j = i
              then truediv
                     (py_add time
                        (Number (s * (complex_of_real pi / (4 * (c_i / of_int trotter_order))))))
                     (of_py_int trotter_order)
              else truediv time (of_py_int trotter_order)) = Inr (per_term ! j))
      \<and> derivative_loop_body (get_operators hamiltonian) time trotter_order i
           (get_operators hamiltonian ! i) (derivatives, output_factors) (Number s) =
          Inr (derivatives @ [foldl circuit_add (Circuit []) per_term],
               output_factors @ [Number (c_i / of_int trotter_order * s)])
      \<and> ((\<forall>entry \<in> set (terms hamiltonian). snd entry \<noteq> Number 0) \<and> (s = 1 \<or> s = - 1) \<longrightarrow>
          (\<exists>circuits factors.
             single_trotter_derivatives (get_operators hamiltonian) time trotter_order =
               Inr (circuits, factors)
             \<and> length circuits = 2 * length (terms hamiltonian)
             \<and> length factors = 2 * length (terms hamiltonian)
             \<and> circuits ! (2 * i + (if s = 1 then 0 else 1)) =
                 foldl circuit_add (Circuit []) per_term
             \<and> factors ! (2 * i + (if s = 1 then 0 else 1)) =
                 Number (c_i / of_int trotter_order * s)))"
proof -
  let ?ts = "get_operators hamiltonian"
  let ?shift = "Number (s * (complex_of_real pi / (4 * (c_i / of_int trotter_order))))"
  have len: "length ?ts = length (terms hamiltonian)"
    by (simp add: get_operators_def)
  have ti: "?ts ! i = \<lparr>terms = [(fst (terms hamiltonian ! i), Number c_i)]\<rparr>"
    using get_operators_nth [OF i] c(1) by simp
  have single_i: "single_term (?ts ! i)" and coef_i: "coefficient_of (?ts ! i) = Number c_i"
    by (simp_all add: ti single_term_def coefficient_of_def)
  have nz: "coefficient_of (?ts ! i) \<noteq> Number 0"
    using c(2) by (simp add: coef_i)
  obtain per_term where
    p1: "length per_term = length ?ts"
    and p2: "\<forall>j < length ?ts.
          time_evolution_for_term (?ts ! j)
            (if j = i then truediv (py_add time ?shift) (of_py_int trotter_order)
             else truediv time (of_py_int trotter_order)) = Inr (per_term ! j)"
    and p3: "perturbed_step ?ts time trotter_order i ?shift =
          foldl circuit_add (Circuit []) per_term"
    using perturbed_step_per_term [OF get_operators_all_single, of hamiltonian i time ?shift
        trotter_order]
    by blast
  have factor: "py_mul (truediv (Number c_i) (of_py_int trotter_order)) (Number s) =
      Number (c_i / of_int trotter_order * s)"
    by (simp add: of_py_int_def)
  have body: "derivative_loop_body ?ts time trotter_order i (?ts ! i)
           (derivatives, output_factors) (Number s) =
          Inr (derivatives @ [foldl circuit_add (Circuit []) per_term],
               output_factors @ [Number (c_i / of_int trotter_order * s)])"
    by (simp only: derivative_loop_body_closed [OF r get_operators_all_single single_i nz]
        coef_i shift_of_numeric p3 factor)
  have whole: "\<exists>circuits factors.
             single_trotter_derivatives ?ts time trotter_order = Inr (circuits, factors)
             \<and> length circuits = 2 * length (terms hamiltonian)
             \<and> length factors = 2 * length (terms hamiltonian)
             \<and> circuits ! (2 * i + (if s = 1 then 0 else 1)) =
                 foldl circuit_add (Circuit []) per_term
             \<and> factors ! (2 * i + (if s = 1 then 0 else 1)) =
                 Number (c_i / of_int trotter_order * s)"
    if all: "\<forall>entry \<in> set (terms hamiltonian). snd entry \<noteq> Number 0"
      and s: "s = 1 \<or> s = - 1"
  proof -
    let ?k = "if s = 1 then 0 else (1::nat)"
    let ?cs = "concat (map (term_derivatives ?ts time trotter_order) (enumerate 0 ?ts))"
    let ?fs = "concat (map (term_factors trotter_order) ?ts)"
    have k: "?k < 2" by simp
    have sk: "[Number 1, Number (- 1)] ! ?k = Number s"
      using s by auto
    have closed: "single_trotter_derivatives ?ts time trotter_order = Inr (?cs, ?fs)"
      by (rule single_trotter_derivatives_closed [OF r get_operators_single [OF all]])
    have ie: "i < length (enumerate 0 ?ts)" using i len by simp
    have "?cs ! (2 * i + ?k) =
        term_derivatives ?ts time trotter_order (enumerate 0 ?ts ! i) ! ?k"
      by (rule concat_pairs_nth [OF _ ie k])
        (simp add: term_derivatives_def case_prod_unfold)
    also have "\<dots> = perturbed_step ?ts time trotter_order i ?shift"
      using i len s
      by (auto simp add: term_derivatives_def nth_enumerate_eq coef_i shift_of_numeric)
    finally have cs: "?cs ! (2 * i + ?k) = foldl circuit_add (Circuit []) per_term"
      by (simp only: p3)
    have it: "i < length ?ts" using i len by simp
    have "?fs ! (2 * i + ?k) = term_factors trotter_order (?ts ! i) ! ?k"
      by (rule concat_pairs_nth [OF _ it k]) (simp add: term_factors_def)
    also have "\<dots> = Number (c_i / of_int trotter_order * s)"
      using s by (auto simp add: term_factors_def coef_i of_py_int_def)
    finally have fs: "?fs ! (2 * i + ?k) = Number (c_i / of_int trotter_order * s)" .
    have "length ?cs = 2 * length (terms hamiltonian)"
      "length ?fs = 2 * length (terms hamiltonian)"
      by (simp_all add: length_term_derivatives length_term_factors len)
    with closed cs fs show ?thesis by blast
  qed
  from p1 p2 body whole len show ?thesis
    by (intro exI [of _ per_term]) simp
qed

theorem derivative_shift_and_perturbed_circuit_witness:
  "derivative_loop_body
     (get_operators \<lparr>terms = [([(0, Z)], Number 1), ([(1, X)], Number 2)]\<rparr>)
     (Symbol ''t'') 1 0
     (get_operators \<lparr>terms = [([(0, Z)], Number 1), ([(1, X)], Number 2)]\<rparr> ! 0)
     ([], []) (Number 1) =
   Inr ([Circuit
          [RZ (Mul (Mul (Number 2)
                 (Div (Add (Symbol ''t'') (Number (complex_of_real pi / 4))) (Number 1)))
                 (Number 1)) 0,
           H 1,
           RZ (Mul (Mul (Number 2) (Div (Symbol ''t'') (Number 1))) (Number 2)) 1,
           H 1]],
        [Number 1])"
proof -
  let ?H = "\<lparr>terms = [([(0, Z)], Number 1), ([(1, X)], Number 2)]\<rparr>"
  have "0 < length (terms ?H)" "snd (terms ?H ! 0) = Number 1" "(1::complex) \<noteq> 0"
    "(1::int) \<noteq> 0"
    by simp_all
  from derivative_shift_and_perturbed_circuit
    [OF this, where s = 1 and time = "Symbol ''t''" and derivatives = "[]"
      and output_factors = "[]"]
  obtain per_term where all:
    "length per_term = length (terms ?H)
      \<and> (\<forall>j < length (terms ?H).
           time_evolution_for_term (get_operators ?H ! j)
             (if j = 0
              then truediv
                     (py_add (Symbol ''t'')
                        (Number (1 * (complex_of_real pi / (4 * (1 / of_int 1))))))
                     (of_py_int 1)
              else truediv (Symbol ''t'') (of_py_int 1)) = Inr (per_term ! j))
      \<and> derivative_loop_body (get_operators ?H) (Symbol ''t'') 1 0
           (get_operators ?H ! 0) ([], []) (Number 1) =
          Inr ([] @ [foldl circuit_add (Circuit []) per_term],
               [] @ [Number (1 / of_int 1 * 1)])"
    by blast
  from all have l: "length per_term = 2" by simp
  from all have a: "\<forall>j < 2. time_evolution_for_term (get_operators ?H ! j)
             (if j = 0
              then truediv
                     (py_add (Symbol ''t'')
                        (Number (1 * (complex_of_real pi / (4 * (1 / of_int 1))))))
                     (of_py_int 1)
              else truediv (Symbol ''t'') (of_py_int 1)) = Inr (per_term ! j)"
    by simp
  from all have b: "derivative_loop_body (get_operators ?H) (Symbol ''t'') 1 0
           (get_operators ?H ! 0) ([], []) (Number 1) =
          Inr ([foldl circuit_add (Circuit []) per_term], [Number 1])"
    by simp
  from a [rule_format, of 0] have "time_evolution_for_term (get_operators ?H ! 0)
      (truediv (py_add (Symbol ''t'')
                        (Number (1 * (complex_of_real pi / (4 * (1 / of_int 1))))))
                     (of_py_int 1)) = Inr (per_term ! 0)"
    by simp
  then have p0: "per_term ! 0 = Circuit
          [RZ (Mul (Mul (Number 2)
                 (Div (Add (Symbol ''t'') (Number (complex_of_real pi / 4))) (Number 1)))
                 (Number 1)) 0]"
    by (simp add: get_operators_def of_py_int_def time_evolution_for_term_single
        base_change_def base_reversal_def)
  from a [rule_format, of 1] have "time_evolution_for_term (get_operators ?H ! 1)
      (truediv (Symbol ''t'') (of_py_int 1)) = Inr (per_term ! 1)"
    by simp
  then have p1: "per_term ! 1 = Circuit
          [H 1, RZ (Mul (Mul (Number 2) (Div (Symbol ''t'') (Number 1))) (Number 2)) 1, H 1]"
    by (simp add: get_operators_def of_py_int_def time_evolution_for_term_single
        base_change_def base_reversal_def)
  from l have "per_term = [per_term ! 0, per_term ! 1]"
    by (cases per_term; cases "tl per_term") auto
  then have "foldl circuit_add (Circuit []) per_term = Circuit
          [RZ (Mul (Mul (Number 2)
                 (Div (Add (Symbol ''t'') (Number (complex_of_real pi / 4))) (Number 1)))
                 (Number 1)) 0,
           H 1,
           RZ (Mul (Mul (Number 2) (Div (Symbol ''t'') (Number 1))) (Number 2)) 1,
           H 1]"
  proof -
    assume "per_term = [per_term ! 0, per_term ! 1]"
    then have "foldl circuit_add (Circuit []) per_term =
        circuit_add (circuit_add (Circuit []) (per_term ! 0)) (per_term ! 1)"
      by (metis foldl_Cons foldl_Nil)
    with p0 p1 show ?thesis by (simp add: circuit_add_def)
  qed
  with b show ?thesis by simp
qed

text \<open>
  Claim C3 as stated speaks of every numeric coefficient. With the coefficient zero the
  quotient \<open>\<pi> / (4 * r)\<close> divides by zero: the pass raises \<^verbatim>\<open>ZeroDivisionError\<close> and
  no shift and no circuit exist.
\<close>

theorem zero_coefficient_shift_counterexample:
  "derivative_loop_body (get_operators \<lparr>terms = [([(0, Z)], Number 0)]\<rparr>) (Number 1) 1 0
     \<lparr>terms = [([(0, Z)], Number 0)]\<rparr> ([], []) (Number 1) = Inl ZeroDivisionError
   \<and> single_trotter_derivatives (get_operators \<lparr>terms = [([(0, Z)], Number 0)]\<rparr>)
       (Number 1) 1 = Inl ZeroDivisionError"
  by (simp add: single_trotter_derivatives_def derivative_loop_body_def get_operators_def
      of_py_int_def np_pi_def)

text \<open>
  Claim C4 as stated speaks of every Hamiltonian with numeric coefficients. For the
  single term \<open>0 * Z0\<close> the call raises \<^verbatim>\<open>ZeroDivisionError\<close> and returns neither two
  circuits nor two factors.
\<close>

theorem zero_coefficient_derivatives_counterexample:
  "time_evolution_derivatives \<lparr>terms = [([(0, Z)], Number 0)]\<rparr> (Number 1) ''Trotter'' 1 =
     Inl ZeroDivisionError
   \<and> \<not> (\<exists>circuits factors.
         time_evolution_derivatives \<lparr>terms = [([(0, Z)], Number 0)]\<rparr> (Number 1)
           ''Trotter'' 1 = Inr (circuits, factors)
         \<and> length circuits = 2 \<and> length factors = 2)"
  by (simp add: time_evolution_derivatives_def single_trotter_derivatives_def
      derivative_loop_body_def get_operators_def of_py_int_def np_pi_def)

text \<open>
  Claim C9 says that a symbolic coefficient makes \<open>time_evolution_derivatives\<close> raise a
  \<open>ValueError\<close>. For the Hamiltonian \<open>a * Z0\<close> with the symbol \<open>a\<close> the call raises
  nothing: it returns two circuits with symbolic angles and two symbolic factors.
\<close>

theorem symbolic_coefficient_not_rejected:
  "time_evolution_derivatives \<lparr>terms = [([(0, Z)], Symbol ''a'')]\<rparr> (Number 1) ''Trotter'' 1 =
     Inr ([Circuit
            [RZ (Mul (Mul (Number 2)
                   (Div (Add (Number 1)
                          (Mul (Number 1)
                             (Div np_pi (Mul (Number 4) (Div (Symbol ''a'') (Number 1))))))
                      (Number 1)))
                   (Symbol ''a'')) 0],
           Circuit
            [RZ (Mul (Mul (Number 2)
                   (Div (Add (Number 1)
                          (Mul (Number (- 1))
                             (Div np_pi (Mul (Number 4) (Div (Symbol ''a'') (Number 1))))))
                      (Number 1)))
                   (Symbol ''a'')) 0]],
          [Mul (Div (Symbol ''a'') (Number 1)) (Number 1),
           Mul (Div (Symbol ''a'') (Number 1)) (Number (- 1))])"
  by (simp add: time_evolution_derivatives_def single_trotter_derivatives_def
      derivative_loop_body_def get_operators_def of_py_int_def
      time_evolution_for_term_single base_change_def base_reversal_def circuit_add_def)

lemma numeric_factors:
  assumes "terms hamiltonian = map (\<lambda>(term, c). (term, Number c)) entries"
  shows "concat (map (term_factors trotter_order) (get_operators hamiltonian)) =
     concat (map (\<lambda>(term, c). map (\<lambda>s. Number (c / of_int trotter_order * s)) [1, - 1])
       entries)"
  by (simp add: get_operators_def assms comp_def case_prod_unfold term_factors_def
      coefficient_of_def of_py_int_def)

lemma numeric_nonzero:
  assumes "terms hamiltonian = map (\<lambda>(term, c). (term, Number c)) entries"
    and "\<forall>(term, c) \<in> set entries. c \<noteq> 0"
  shows "\<forall>entry \<in> set (terms hamiltonian). snd entry \<noteq> Number 0"
  using assms by auto

lemma length_concat_map_map:
  "length (concat (map (\<lambda>p. map (g p) xs) ps)) = length ps * length xs"
  by (induction ps) simp_all

lemma concat_map_blocks_nth:
  "p < length ps \<Longrightarrow> m < length xs \<Longrightarrow>
   concat (map (\<lambda>q. map (g q) xs) ps) ! (p * length xs + m) = g (ps ! p) (xs ! m)"
proof (induction ps arbitrary: p)
  case Nil
  then show ?case by simp
next
  case (Cons q ps)
  show ?case
  proof (cases p)
    case 0
    with Cons.prems show ?thesis by (simp add: nth_append)
  next
    case (Suc p')
    with Cons.prems have "p' < length ps" by simp
    from Cons.IH [OF this Cons.prems(2)] Suc show ?thesis
      by (simp add: nth_append)
  qed
qed

lemma concat_replicate_nth:
  "p < n \<Longrightarrow> m < length xs \<Longrightarrow> concat (replicate n xs) ! (p * length xs + m) = xs ! m"
proof (induction n arbitrary: p)
  case 0
  then show ?case by simp
next
  case (Suc n)
  show ?case
  proof (cases p)
    case 0
    with Suc.prems show ?thesis by (simp add: nth_append)
  next
    case (Suc p')
    with Suc.prems have "p' < n" by simp
    from Suc.IH [OF this Suc.prems(2)] Suc show ?thesis
      by (simp add: nth_append)
  qed
qed

lemma length_concat_replicate:
  "length (concat (replicate n xs)) = n * length xs"
  by (induction n) simp_all

lemma term_derivatives_nth:
  "k < 2 \<Longrightarrow>
   term_derivatives terms' time trotter_order (i, t) ! k =
     perturbed_step terms' time trotter_order i
       (shift_of (coefficient_of t) trotter_order ([Number 1, Number (- 1)] ! k))"
proof -
  assume "k < 2"
  then have "k = 0 \<or> k = 1" by arith
  then show ?thesis by (auto simp add: term_derivatives_def)
qed

lemma term_factors_nth:
  "k < 2 \<Longrightarrow>
   term_factors trotter_order t ! k =
     py_mul (truediv (coefficient_of t) (of_py_int trotter_order)) ([Number 1, Number (- 1)] ! k)"
proof -
  assume "k < 2"
  then have "k = 0 \<or> k = 1" by arith
  then show ?thesis by (auto simp add: term_factors_def)
qed

lemma derivative_loop_body_entry:
  assumes r: "trotter_order \<noteq> 0"
    and ts: "\<forall>term \<in> set terms'. single_term term \<and> coefficient_of term \<noteq> Number 0"
    and i: "i < length terms'" and k: "k < 2"
  shows "derivative_loop_body terms' time trotter_order i (terms' ! i) ([], [])
           ([Number 1, Number (- 1)] ! k) =
         Inr ([concat (map (term_derivatives terms' time trotter_order) (enumerate 0 terms'))
                 ! (2 * i + k)],
              [concat (map (term_factors trotter_order) terms') ! (2 * i + k)])"
proof -
  from ts have single: "\<forall>term \<in> set terms'. single_term term" by blast
  from ts i have t: "single_term (terms' ! i)" "coefficient_of (terms' ! i) \<noteq> Number 0"
    by simp_all
  have ie: "i < length (enumerate 0 terms')" using i by simp
  have "concat (map (term_derivatives terms' time trotter_order) (enumerate 0 terms'))
      ! (2 * i + k) = term_derivatives terms' time trotter_order (enumerate 0 terms' ! i) ! k"
    by (rule concat_pairs_nth [OF _ ie k]) (simp add: term_derivatives_def case_prod_unfold)
  also have "\<dots> = perturbed_step terms' time trotter_order i
       (shift_of (coefficient_of (terms' ! i)) trotter_order ([Number 1, Number (- 1)] ! k))"
    using i by (simp add: nth_enumerate_eq term_derivatives_nth [OF k])
  finally have cs: "concat (map (term_derivatives terms' time trotter_order)
      (enumerate 0 terms')) ! (2 * i + k) =
    perturbed_step terms' time trotter_order i
       (shift_of (coefficient_of (terms' ! i)) trotter_order ([Number 1, Number (- 1)] ! k))" .
  have "concat (map (term_factors trotter_order) terms') ! (2 * i + k) =
      term_factors trotter_order (terms' ! i) ! k"
    by (rule concat_pairs_nth [OF _ i k]) (simp add: term_factors_def)
  then have fs: "concat (map (term_factors trotter_order) terms') ! (2 * i + k) =
      py_mul (truediv (coefficient_of (terms' ! i)) (of_py_int trotter_order))
        ([Number 1, Number (- 1)] ! k)"
    by (simp only: term_factors_nth [OF k])
  show ?thesis
    by (simp only: derivative_loop_body_closed [OF r single t] cs fs append_Nil)
qed

text \<open>
  Claim C4, amended. Take a Hamiltonian with \<open>n\<close> terms whose coefficients are numbers
  other than zero and \<open>trotter_order \<ge> 1\<close>. The two loops build \<open>2 * n\<close> circuits and
  \<open>2 * n\<close> factors, aligned by index: entry \<open>2 * i + k\<close> of both lists is what the loop
  pass for term \<open>i\<close> and sign \<open>k\<close> (\<open>+1\<close> before \<open>-1\<close>) appends, and the factors are
  \<open>(c_i / trotter_order) * s\<close> in term-then-sign order. With \<open>trotter_order = 1\<close> these
  two lists are the result. With \<open>trotter_order = r > 1\<close> and \<open>n \<ge> 1\<close> the result has
  \<open>2 * n * r\<close> circuits and as many factors: for every slot \<open>position < r\<close> and every
  \<open>m < 2 * n\<close>, the circuit at index \<open>position * 2 * n + m\<close> is the repeated one-step
  circuit spliced with the \<open>m\<close>-th one-step derivative at \<open>position\<close>, and the factor
  at that index is the \<open>m\<close>-th one-step factor. For the Hamiltonian \<open>c * Z0\<close> and
  \<open>trotter_order = 1\<close> the factors are \<open>c\<close>, then \<open>- c\<close>.
\<close>

theorem time_evolution_derivatives_count_and_factors:
  assumes numeric: "terms hamiltonian = map (\<lambda>(term, c). (term, Number c)) entries"
    and nonzero: "\<forall>(term, c) \<in> set entries. c \<noteq> 0"
    and order: "1 \<le> trotter_order"
  shows
    "\<exists>singles single_factors.
       single_trotter_derivatives (get_operators hamiltonian) time trotter_order =
         Inr (singles, single_factors)
       \<and> length singles = 2 * length entries
       \<and> single_factors =
           concat (map (\<lambda>(term, c). map (\<lambda>s. Number (c / of_int trotter_order * s)) [1, - 1])
             entries)
       \<and> (\<forall>i < length entries. \<forall>k < 2.
            derivative_loop_body (get_operators hamiltonian) time trotter_order i
              (get_operators hamiltonian ! i) ([], []) ([Number 1, Number (- 1)] ! k) =
            Inr ([singles ! (2 * i + k)], [single_factors ! (2 * i + k)]))
       \<and> (trotter_order = 1 \<longrightarrow>
            time_evolution_derivatives hamiltonian time ''Trotter'' trotter_order =
              Inr (singles, single_factors))
       \<and> (1 < trotter_order \<and> entries \<noteq> [] \<longrightarrow>
            (\<exists>repeated_circuit circuits factors.
               time_evolution hamiltonian time ''Trotter'' 1 = Inr repeated_circuit
               \<and> time_evolution_derivatives hamiltonian time ''Trotter'' trotter_order =
                   Inr (circuits, factors)
               \<and> length circuits = 2 * length entries * nat trotter_order
               \<and> length factors = 2 * length entries * nat trotter_order
               \<and> factors = concat (replicate (nat trotter_order) single_factors)
               \<and> (\<forall>position < nat trotter_order. \<forall>m < 2 * length entries.
                    generate_circuit_sequence repeated_circuit (singles ! m) trotter_order
                      (int position) =
                      Inr (circuits ! (position * (2 * length entries) + m))
                    \<and> factors ! (position * (2 * length entries) + m) = single_factors ! m)))
       \<and> (entries = [([(0, Z)], c)] \<and> trotter_order = 1 \<longrightarrow>
            time_evolution_derivatives hamiltonian time ''Trotter'' 1 =
              Inr (singles, [Number c, Number (- c)]))"
proof -
  let ?ts = "get_operators hamiltonian"
  let ?cs = "concat (map (term_derivatives ?ts time trotter_order) (enumerate 0 ?ts))"
  let ?fs = "concat (map (term_factors trotter_order) ?ts)"
  let ?n = "length entries"
  note nz = numeric_nonzero [OF numeric nonzero]
  note ts = get_operators_single [OF nz]
  from order have r0: "trotter_order \<noteq> 0" by simp
  have len: "length ?ts = ?n"
    by (simp add: get_operators_def numeric)
  have lcs: "length ?cs = 2 * ?n" and lfs: "length ?fs = 2 * ?n"
    by (simp_all add: length_term_derivatives length_term_factors len)
  have fs_eq: "?fs =
      concat (map (\<lambda>(term, c). map (\<lambda>s. Number (c / of_int trotter_order * s)) [1, - 1])
        entries)"
    by (rule numeric_factors [OF numeric])
  have closed: "single_trotter_derivatives ?ts time trotter_order = Inr (?cs, ?fs)"
    by (rule single_trotter_derivatives_closed [OF r0 ts])
  have body: "\<forall>i < ?n. \<forall>k < 2.
      derivative_loop_body ?ts time trotter_order i (?ts ! i) ([], [])
        ([Number 1, Number (- 1)] ! k) =
      Inr ([?cs ! (2 * i + k)], [?fs ! (2 * i + k)])"
    using derivative_loop_body_entry [OF r0 ts] len by simp
  have low: "time_evolution_derivatives hamiltonian time ''Trotter'' trotter_order =
      Inr (?cs, ?fs)" if "trotter_order = 1"
    using time_evolution_derivatives_low_order [OF r0 _ nz, of time] that by simp
  have high: "\<exists>repeated_circuit circuits factors.
               time_evolution hamiltonian time ''Trotter'' 1 = Inr repeated_circuit
               \<and> time_evolution_derivatives hamiltonian time ''Trotter'' trotter_order =
                   Inr (circuits, factors)
               \<and> length circuits = 2 * ?n * nat trotter_order
               \<and> length factors = 2 * ?n * nat trotter_order
               \<and> factors = concat (replicate (nat trotter_order) ?fs)
               \<and> (\<forall>position < nat trotter_order. \<forall>m < 2 * ?n.
                    generate_circuit_sequence repeated_circuit (?cs ! m) trotter_order
                      (int position) =
                      Inr (circuits ! (position * (2 * ?n) + m))
                    \<and> factors ! (position * (2 * ?n) + m) = ?fs ! m)"
    if r: "1 < trotter_order" and ne: "entries \<noteq> []"
  proof -
    from ne have ne': "terms hamiltonian \<noteq> []" by (simp add: numeric)
    from time_evolution_derivatives_high_order [OF r ne' nz, of time]
    obtain repeated_circuit where
      rep: "time_evolution hamiltonian time ''Trotter'' 1 = Inr repeated_circuit"
      and res: "time_evolution_derivatives hamiltonian time ''Trotter'' trotter_order =
        Inr (concat (map (\<lambda>position.
               map (\<lambda>different_circuit.
                      projr (generate_circuit_sequence repeated_circuit different_circuit
                               trotter_order position))
                 ?cs)
               (py_range trotter_order)),
             concat (replicate (nat trotter_order) ?fs))"
      by blast
    let ?g = "\<lambda>position different_circuit.
                      projr (generate_circuit_sequence repeated_circuit different_circuit
                               trotter_order position)"
    let ?circuits = "concat (map (\<lambda>position. map (?g position) ?cs) (py_range trotter_order))"
    let ?factors = "concat (replicate (nat trotter_order) ?fs)"
    have l1: "length ?circuits = 2 * ?n * nat trotter_order"
      by (simp add: length_concat_map_map lcs py_range_def comp_def)
    have l2: "length ?factors = 2 * ?n * nat trotter_order"
      by (simp only: length_concat_replicate lfs mult.commute)
    have idx: "generate_circuit_sequence repeated_circuit (?cs ! m) trotter_order
                      (int position) =
                      Inr (?circuits ! (position * (2 * ?n) + m))
                    \<and> ?factors ! (position * (2 * ?n) + m) = ?fs ! m"
      if p: "position < nat trotter_order" and m: "m < 2 * ?n" for position m
    proof -
      from p have pl: "position < length (py_range trotter_order)"
        by (simp add: py_range_def)
      from m have ml: "m < length ?cs" by (simp only: lcs)
      have "?circuits ! (position * length ?cs + m) =
          ?g (py_range trotter_order ! position) (?cs ! m)"
        by (rule concat_map_blocks_nth [OF pl ml])
      moreover have "py_range trotter_order ! position = int position"
        using p by (simp add: py_range_def)
      moreover have "int position < trotter_order" using p by simp
      then have "generate_circuit_sequence repeated_circuit (?cs ! m) trotter_order
          (int position) = Inr (?g (int position) (?cs ! m))"
        by (simp add: generate_circuit_sequence_ok)
      ultimately have c: "generate_circuit_sequence repeated_circuit (?cs ! m) trotter_order
                      (int position) = Inr (?circuits ! (position * (2 * ?n) + m))"
        by (simp only: lcs)
      from m have mf: "m < length ?fs" by (simp only: lfs)
      have "?factors ! (position * length ?fs + m) = ?fs ! m"
        by (rule concat_replicate_nth [OF p mf])
      then have "?factors ! (position * (2 * ?n) + m) = ?fs ! m"
        by (simp only: lfs)
      with c show ?thesis by (rule conjI)
    qed
    show ?thesis
      apply (intro exI [of _ repeated_circuit] exI [of _ ?circuits] exI [of _ ?factors]
          conjI allI impI)
      subgoal by (rule rep)
      subgoal by (rule res)
      subgoal by (rule l1)
      subgoal by (rule l2)
      subgoal by (rule refl)
      subgoal by (rule idx [THEN conjunct1])
      subgoal by (rule idx [THEN conjunct2])
      done
  qed
  have one: "time_evolution_derivatives hamiltonian time ''Trotter'' 1 =
              Inr (?cs, [Number c, Number (- c)])"
    if "entries = [([(0, Z)], c)]" and "trotter_order = 1"
    using low that fs_eq by simp
  show ?thesis
    apply (intro exI [of _ ?cs] exI [of _ ?fs] conjI impI)
    subgoal by (rule closed)
    subgoal by (rule lcs)
    subgoal by (rule fs_eq)
    subgoal by (rule body)
    subgoal by (rule low)
    subgoal by (elim conjE) (rule high)
    subgoal by (elim conjE) (rule one)
    done
qed

text \<open>
  The Hamiltonian \<open>1 * Z0 + 2 * X1\<close> at \<open>trotter_order = 2\<close>: the shifts are
  \<open>\<plusminus> \<pi>/2\<close> and \<open>\<plusminus> \<pi>/4\<close>, slot 0 comes first, and the four factors are
  repeated. The Hamiltonian \<open>3 * Z0\<close> at \<open>trotter_order = 1\<close> gives the factors
  \<open>3\<close> and \<open>- 3\<close>.
\<close>

theorem time_evolution_derivatives_count_and_factors_witness:
  "(let t = Symbol ''t'';
        step = (\<lambda>angle0 angle1.
          Circuit [RZ (Mul (Mul (Number 2) angle0) (Number 1)) 0,
                   H 1, RZ (Mul (Mul (Number 2) angle1) (Number 2)) 1, H 1]);
        R = step (Div t (Number 1)) (Div t (Number 1));
        plus0 = step (Div (Add t (Number (complex_of_real pi / 2))) (Number 2))
                  (Div t (Number 2));
        minus0 = step (Div (Add t (Number (- (complex_of_real pi / 2)))) (Number 2))
                   (Div t (Number 2));
        plus1 = step (Div t (Number 2))
                  (Div (Add t (Number (complex_of_real pi / 4))) (Number 2));
        minus1 = step (Div t (Number 2))
                   (Div (Add t (Number (- (complex_of_real pi / 4)))) (Number 2))
    in time_evolution_derivatives
         \<lparr>terms = [([(0, Z)], Number 1), ([(1, X)], Number 2)]\<rparr> t ''Trotter'' 2 =
       Inr ([circuit_add plus0 R, circuit_add minus0 R,
             circuit_add plus1 R, circuit_add minus1 R,
             circuit_add R plus0, circuit_add R minus0,
             circuit_add R plus1, circuit_add R minus1],
            [Number (1 / 2), Number (- (1 / 2)), Number 1, Number (- 1),
             Number (1 / 2), Number (- (1 / 2)), Number 1, Number (- 1)]))
   \<and> time_evolution_derivatives \<lparr>terms = [([(0, Z)], Number 3)]\<rparr> (Symbol ''t'')
       ''Trotter'' 1 =
     Inr ([Circuit [RZ (Mul (Mul (Number 2)
                      (Div (Add (Symbol ''t'') (Number (complex_of_real pi / 12)))
                         (Number 1))) (Number 3)) 0],
           Circuit [RZ (Mul (Mul (Number 2)
                      (Div (Add (Symbol ''t'') (Number (- (complex_of_real pi / 12))))
                         (Number 1))) (Number 3)) 0]],
          [Number 3, Number (- 3)])"
proof -
  have two: "terms \<lparr>terms = [([(0, Z)], Number 1), ([(1, X)], Number 2)]\<rparr> =
      map (\<lambda>(term, c). (term, Number c)) [([(0, Z)], 1), ([(1, X)], 2)]"
    "\<forall>(term, c) \<in> set [([(0::nat, Z)], 1::complex), ([(1, X)], 2)]. c \<noteq> 0"
    "(1::int) \<le> 2"
    by simp_all
  have one: "terms \<lparr>terms = [([(0, Z)], Number 3)]\<rparr> =
      map (\<lambda>(term, c). (term, Number c)) [([(0, Z)], 3)]"
    "\<forall>(term, c) \<in> set [([(0::nat, Z)], 3::complex)]. c \<noteq> 0"
    "(1::int) \<le> 1"
    by simp_all
  from time_evolution_derivatives_count_and_factors [OF two, where time = "Symbol ''t''"]
    time_evolution_derivatives_count_and_factors
      [OF one, where time = "Symbol ''t''" and c = 3]
  show ?thesis
    by (simp add: Let_def time_evolution_derivatives_def single_trotter_derivatives_def
      derivative_loop_body_def get_operators_def of_py_int_def np_pi_def
      time_evolution_def py_range_def generate_circuit_sequence_def
      time_evolution_for_term_single base_change_def base_reversal_def circuit_add_def
      eval_nat_numeral)
qed

end
